theory Spec2Isabelle
  imports Complex_Main
begin

section \<open>Data model\<close>

text \<open>
  The simulation core is written in TypeScript. Its \<^verbatim>\<open>number\<close> values are modelled as
  follows: ammunition counts, which the code only ever builds from integer literals by
  adding, subtracting and taking minima, are \<^typ>\<open>int\<close>; every other quantity
  (timestamps, coordinates, velocities, damage) is a \<^typ>\<open>real\<close>, that is, arithmetic
  is exact and there is no NaN and no infinity. The 32-bit integer arithmetic of the
  string hash is written out on \<^typ>\<open>int\<close> with its wrap-around.
\<close>

datatype WeaponId = assaultRifle | shotgun | pistol

record WeaponSpec =
  spec_id :: WeaponId
  label :: string
  modelPath :: string
  fireIntervalMs :: real
  reloadMs :: real
  magSize :: int
  reserveAmmo :: int
  pellets :: int
  spread :: real
  baseDamage :: real
  falloffPerMeter :: real
  armorPenetration :: real
  headshotMultiplier :: real
  automatic :: bool
  recoilPitch :: real
  recoilYaw :: real
  muzzleFlashIntensity :: real

record WeaponRuntimeState =
  weaponId :: WeaponId
  ammoInMag :: int
  ammoReserve :: int
  lastShotAt :: real
  reloadingUntil :: "real option"

datatype FireResultReason = fired | cooldown | reloading | empty_mag

record FireResult =
  nextState :: WeaponRuntimeState
  didFire :: bool
  reason :: FireResultReason

record InputState =
  moveForward :: bool
  moveBackward :: bool
  moveLeft :: bool
  moveRight :: bool
  sprint :: bool
  crouch :: bool
  jump :: bool
  firing :: bool

text \<open>
  \<^verbatim>\<open>Vec3\<close> and \<^verbatim>\<open>SpawnPoint\<close> are the same structural type \<^verbatim>\<open>{x, y, z}\<close>; the
  fields are named \<open>xc\<close>, \<open>yc\<close>, \<open>zc\<close> here. The fields \<^verbatim>\<open>min\<close> and
  \<^verbatim>\<open>max\<close> of an \<^verbatim>\<open>Aabb\<close> are \<open>min_corner\<close> and \<open>max_corner\<close>.
\<close>

record Vec3 =
  xc :: real
  yc :: real
  zc :: real

type_synonym SpawnPoint = Vec3

record Aabb =
  min_corner :: Vec3
  max_corner :: Vec3

text \<open>
  The collision resolver returns an object \<^verbatim>\<open>{position, velocity}\<close>; a
  \<^verbatim>\<open>PlayerBodyState\<close> has these two fields and four more.
\<close>

record Motion =
  position :: Vec3
  velocity :: Vec3

record PlayerBodyState = Motion +
  yaw :: real
  pitch :: real
  grounded :: bool
  crouching :: bool

record ArenaBounds =
  minX :: real
  maxX :: real
  minZ :: real
  maxZ :: real
  floorY :: real

record DamageState =
  health :: real
  armor :: real

record DamageResolution = DamageState +
  damageApplied :: real
  isEliminated :: bool

datatype TeamName = counter | terror


section \<open>Weapon state machine (weapons.ts)\<close>

fun WEAPONS :: "WeaponId \<Rightarrow> WeaponSpec" where
  "WEAPONS assaultRifle =
     \<lparr> spec_id = assaultRifle, label = ''AR-44 Viper'',
       modelPath = ''/assets/models/weapons/assault-rifle.glb'',
       fireIntervalMs = 95, reloadMs = 2100, magSize = 30, reserveAmmo = 120,
       pellets = 1, spread = 11 / 1000, baseDamage = 27, falloffPerMeter = 12 / 1000,
       armorPenetration = 64 / 100, headshotMultiplier = 38 / 10, automatic = True,
       recoilPitch = 28 / 10000, recoilYaw = 19 / 10000, muzzleFlashIntensity = 22 / 10 \<rparr>"
| "WEAPONS shotgun =
     \<lparr> spec_id = shotgun, label = ''SG-12 Mauler'',
       modelPath = ''/assets/models/weapons/shotgun.glb'',
       fireIntervalMs = 820, reloadMs = 2700, magSize = 8, reserveAmmo = 40,
       pellets = 8, spread = 55 / 1000, baseDamage = 12, falloffPerMeter = 48 / 1000,
       armorPenetration = 42 / 100, headshotMultiplier = 18 / 10, automatic = False,
       recoilPitch = 11 / 1000, recoilYaw = 6 / 1000, muzzleFlashIntensity = 28 / 10 \<rparr>"
| "WEAPONS pistol =
     \<lparr> spec_id = pistol, label = ''PX-9 Phantom'',
       modelPath = ''/assets/models/weapons/pistol.glb'',
       fireIntervalMs = 210, reloadMs = 1600, magSize = 15, reserveAmmo = 60,
       pellets = 1, spread = 8 / 1000, baseDamage = 31, falloffPerMeter = 18 / 1000,
       armorPenetration = 57 / 100, headshotMultiplier = 29 / 10, automatic = False,
       recoilPitch = 5 / 1000, recoilYaw = 25 / 10000, muzzleFlashIntensity = 18 / 10 \<rparr>"

text \<open>\<^verbatim>\<open>Number.MAX_SAFE_INTEGER\<close> is \<open>2^53 - 1\<close>.\<close>

definition MAX_SAFE_INTEGER :: real where
  "MAX_SAFE_INTEGER = 9007199254740991"

definition createWeaponState :: "WeaponId \<Rightarrow> WeaponRuntimeState" where
  "createWeaponState w =
     \<lparr> weaponId = w, ammoInMag = magSize (WEAPONS w), ammoReserve = reserveAmmo (WEAPONS w),
       lastShotAt = - MAX_SAFE_INTEGER, reloadingUntil = None \<rparr>"

text \<open>
  \<^verbatim>\<open>state.reloadingUntil !== null && now < state.reloadingUntil\<close>, the test shared by
  \<^verbatim>\<open>tryFireWeapon\<close> and \<^verbatim>\<open>isReloading\<close>.
\<close>

definition isReloading :: "WeaponRuntimeState \<Rightarrow> real \<Rightarrow> bool" where
  "isReloading state now =
     (case reloadingUntil state of None \<Rightarrow> False | Some until \<Rightarrow> now < until)"

definition tryFireWeapon :: "WeaponRuntimeState \<Rightarrow> real \<Rightarrow> FireResult" where
  "tryFireWeapon state now =
     (let spec = WEAPONS (weaponId state) in
      if (case reloadingUntil state of None \<Rightarrow> False | Some until \<Rightarrow> now < until)
      then \<lparr> nextState = state, didFire = False, reason = reloading \<rparr>
      else if now - lastShotAt state < fireIntervalMs spec
      then \<lparr> nextState = state, didFire = False, reason = cooldown \<rparr>
      else if ammoInMag state \<le> 0
      then \<lparr> nextState = state, didFire = False, reason = empty_mag \<rparr>
      else \<lparr> nextState = state \<lparr> ammoInMag := ammoInMag state - 1, lastShotAt := now \<rparr>,
             didFire = True, reason = fired \<rparr>)"

definition beginReload :: "WeaponRuntimeState \<Rightarrow> real \<Rightarrow> WeaponRuntimeState" where
  "beginReload state now =
     (let spec = WEAPONS (weaponId state) in
      if reloadingUntil state \<noteq> None then state
      else if ammoInMag state \<ge> magSize spec \<or> ammoReserve state \<le> 0 then state
      else state \<lparr> reloadingUntil := Some (now + reloadMs spec) \<rparr>)"

definition tickReload :: "WeaponRuntimeState \<Rightarrow> real \<Rightarrow> WeaponRuntimeState" where
  "tickReload state now =
     (let spec = WEAPONS (weaponId state) in
      if (case reloadingUntil state of None \<Rightarrow> True | Some until \<Rightarrow> now < until) then state
      else
        let missing = magSize spec - ammoInMag state;
            refill = min missing (ammoReserve state)
        in state \<lparr> ammoInMag := ammoInMag state + refill,
                   ammoReserve := ammoReserve state - refill,
                   reloadingUntil := None \<rparr>)"


section \<open>Kinematics, damage and spawn selection\<close>

definition PLAYER_RADIUS :: real where "PLAYER_RADIUS = 34 / 100"
definition PLAYER_HEIGHT_STANDING :: real where "PLAYER_HEIGHT_STANDING = 172 / 100"
definition PLAYER_HEIGHT_CROUCHING :: real where "PLAYER_HEIGHT_CROUCHING = 124 / 100"
definition WALK_SPEED :: real where "WALK_SPEED = 56 / 10"
definition SPRINT_SPEED :: real where "SPRINT_SPEED = 88 / 10"
definition CROUCH_SPEED :: real where "CROUCH_SPEED = 32 / 10"
definition ACCELERATION :: real where "ACCELERATION = 48"
definition FRICTION :: real where "FRICTION = 32"
definition GRAVITY :: real where "GRAVITY = 26"
definition JUMP_VELOCITY :: real where "JUMP_VELOCITY = 89 / 10"

definition approach :: "real \<Rightarrow> real \<Rightarrow> real \<Rightarrow> real" where
  "approach current target maxDelta =
     (if \<bar>target - current\<bar> \<le> maxDelta then target
      else current + sgn (target - current) * maxDelta)"

definition clamp :: "real \<Rightarrow> real \<Rightarrow> real \<Rightarrow> real" where
  "clamp v lo hi = (if v < lo then lo else if v > hi then hi else v)"

text \<open>\<^verbatim>\<open>Math.hypot\<close> of two arguments.\<close>

definition hypot :: "real \<Rightarrow> real \<Rightarrow> real" where
  "hypot a b = sqrt (a * a + b * b)"

text \<open>
  One iteration of the loop of \<^verbatim>\<open>resolveHorizontalCollisions\<close>: the two
  \<^verbatim>\<open>continue\<close> statements leave the running position and velocity as they are.
\<close>

definition resolveObstacle :: "real \<Rightarrow> real \<Rightarrow> Motion \<Rightarrow> Aabb \<Rightarrow> Motion" where
  "resolveObstacle playerBottom playerTop m obstacle =
     (let nextPosition = position m; nextVelocity = velocity m;
          overlapsVertically =
            (playerBottom < yc (max_corner obstacle) \<and> playerTop > yc (min_corner obstacle))
      in if \<not> overlapsVertically then m
      else
        let expandedMinX = xc (min_corner obstacle) - PLAYER_RADIUS;
            expandedMaxX = xc (max_corner obstacle) + PLAYER_RADIUS;
            expandedMinZ = zc (min_corner obstacle) - PLAYER_RADIUS;
            expandedMaxZ = zc (max_corner obstacle) + PLAYER_RADIUS
        in if xc nextPosition \<le> expandedMinX \<or> xc nextPosition \<ge> expandedMaxX \<or>
              zc nextPosition \<le> expandedMinZ \<or> zc nextPosition \<ge> expandedMaxZ
        then m
        else
          let distanceToLeft = \<bar>xc nextPosition - expandedMinX\<bar>;
              distanceToRight = \<bar>expandedMaxX - xc nextPosition\<bar>;
              distanceToBack = \<bar>zc nextPosition - expandedMinZ\<bar>;
              distanceToFront = \<bar>expandedMaxZ - zc nextPosition\<bar>;
              minDistance =
                min distanceToLeft (min distanceToRight (min distanceToBack distanceToFront))
          in if minDistance = distanceToLeft
          then \<lparr> position = nextPosition \<lparr> xc := expandedMinX \<rparr>,
                 velocity = nextVelocity \<lparr> xc := min (xc nextVelocity) 0 \<rparr> \<rparr>
          else if minDistance = distanceToRight
          then \<lparr> position = nextPosition \<lparr> xc := expandedMaxX \<rparr>,
                 velocity = nextVelocity \<lparr> xc := max (xc nextVelocity) 0 \<rparr> \<rparr>
          else if minDistance = distanceToBack
          then \<lparr> position = nextPosition \<lparr> zc := expandedMinZ \<rparr>,
                 velocity = nextVelocity \<lparr> zc := min (zc nextVelocity) 0 \<rparr> \<rparr>
          else \<lparr> position = nextPosition \<lparr> zc := expandedMaxZ \<rparr>,
                 velocity = nextVelocity \<lparr> zc := max (zc nextVelocity) 0 \<rparr> \<rparr>)"

fun resolveLoop :: "real \<Rightarrow> real \<Rightarrow> Motion \<Rightarrow> Aabb list \<Rightarrow> Motion" where
  "resolveLoop playerBottom playerTop m [] = m"
| "resolveLoop playerBottom playerTop m (obstacle # rest) =
     resolveLoop playerBottom playerTop (resolveObstacle playerBottom playerTop m obstacle) rest"

definition resolveHorizontalCollisions ::
  "Vec3 \<Rightarrow> Vec3 \<Rightarrow> real \<Rightarrow> Aabb list \<Rightarrow> Motion" where
  "resolveHorizontalCollisions pos vel playerHeight obstacles =
     (let playerBottom = yc pos; playerTop = playerBottom + playerHeight
      in resolveLoop playerBottom playerTop \<lparr> position = pos, velocity = vel \<rparr> obstacles)"

text \<open>
  The source assigns \<^verbatim>\<open>nextVelocityY\<close>, \<^verbatim>\<open>nextGrounded\<close> and \<^verbatim>\<open>nextPosition.y\<close>
  twice: once in the jump-or-gravity step and once more when the floor test fires. Each
  assignment has its own name here: the suffix \<open>1\<close> marks the value before the floor
  test, \<open>jumping\<close> is the condition of the jump and \<open>belowFloor\<close> that of the floor
  test. \<^verbatim>\<open>Number\<close> of a boolean is \<^const>\<open>of_bool\<close>, \<^verbatim>\<open>Math.sign\<close> is \<^const>\<open>sgn\<close>.
\<close>

definition stepPlayerMovement ::
  "PlayerBodyState \<Rightarrow> InputState \<Rightarrow> real \<Rightarrow> Aabb list \<Rightarrow> ArenaBounds \<Rightarrow> PlayerBodyState" where
  "stepPlayerMovement state input dt obstacles bounds =
     (let desiredCrouch = crouch input;
          speed = (if desiredCrouch then CROUCH_SPEED
                   else if sprint input \<and> moveForward input \<and> \<not> moveBackward input
                   then SPRINT_SPEED else WALK_SPEED);
          localX = of_bool (moveRight input) - of_bool (moveLeft input);
          localZ = of_bool (moveForward input) - of_bool (moveBackward input);
          cosYaw = cos (yaw state);
          sinYaw = sin (yaw state);
          worldX = localX * cosYaw - localZ * sinYaw;
          worldZ = - localX * sinYaw - localZ * cosYaw;
          wishLength = hypot worldX worldZ;
          nextVelocityX =
            (if wishLength > 0
             then approach (xc (velocity state)) (worldX / wishLength * speed) (ACCELERATION * dt)
             else approach (xc (velocity state)) 0 (FRICTION * dt));
          nextVelocityZ =
            (if wishLength > 0
             then approach (zc (velocity state)) (worldZ / wishLength * speed) (ACCELERATION * dt)
             else approach (zc (velocity state)) 0 (FRICTION * dt));
          jumping = (grounded state \<and> jump input \<and> \<not> desiredCrouch);
          nextVelocityY1 =
            (if jumping then JUMP_VELOCITY else yc (velocity state) - GRAVITY * dt);
          nextGrounded1 = (if jumping then False else grounded state);
          nextPosition1 =
            \<lparr> xc = clamp (xc (position state) + nextVelocityX * dt)
                         (minX bounds + PLAYER_RADIUS) (maxX bounds - PLAYER_RADIUS),
              yc = yc (position state) + nextVelocityY1 * dt,
              zc = clamp (zc (position state) + nextVelocityZ * dt)
                         (minZ bounds + PLAYER_RADIUS) (maxZ bounds - PLAYER_RADIUS) \<rparr>;
          belowFloor = (yc nextPosition1 < floorY bounds);
          nextPosition = (if belowFloor then nextPosition1 \<lparr> yc := floorY bounds \<rparr>
                          else nextPosition1);
          nextVelocityY = (if belowFloor then 0 else nextVelocityY1);
          nextGrounded = (if belowFloor then True else nextGrounded1);
          playerHeight = (if desiredCrouch then PLAYER_HEIGHT_CROUCHING
                          else PLAYER_HEIGHT_STANDING);
          collisionResult =
            resolveHorizontalCollisions nextPosition
              \<lparr> xc = nextVelocityX, yc = nextVelocityY, zc = nextVelocityZ \<rparr>
              playerHeight obstacles
      in state \<lparr> position := position collisionResult,
                 velocity := velocity collisionResult,
                 grounded := nextGrounded,
                 crouching := desiredCrouch \<rparr>)"

text \<open>\<^verbatim>\<open>Math.round\<close> rounds halves up, as \<^const>\<open>round\<close> does.\<close>

definition computeWeaponDamage :: "WeaponId \<Rightarrow> real \<Rightarrow> bool \<Rightarrow> int" where
  "computeWeaponDamage w distanceMeters isHeadshot =
     (let spec = WEAPONS w;
          minimumScale = 28 / 100;
          scaled = max minimumScale (1 - distanceMeters * falloffPerMeter spec);
          headshotScale = (if isHeadshot then headshotMultiplier spec else 1)
      in max 1 (round (baseDamage spec * scaled * headshotScale)))"

definition applyDamage :: "DamageState \<Rightarrow> real \<Rightarrow> real \<Rightarrow> DamageResolution" where
  "applyDamage state rawDamage armorPen =
     (let armorBlockScale = clamp (1 - armorPen) 0 1;
          armorToSpend = min (armor state) (rawDamage * armorBlockScale * (65 / 100));
          healthDamage = rawDamage - armorToSpend * (55 / 100);
          nextArmor = max 0 (armor state - armorToSpend);
          nextHealth = max 0 (health state - healthDamage)
      in \<lparr> health = nextHealth, armor = nextArmor,
           damageApplied = health state - nextHealth,
           isEliminated = (nextHealth \<le> 0) \<rparr>)"

text \<open>
  A JavaScript string is a sequence of UTF-16 code units, and \<^verbatim>\<open>charCodeAt\<close> reads
  one of them: a string is modelled as the list of its code units.
\<close>

type_synonym js_string = "nat list"

text \<open>
  \<^verbatim>\<open>ToInt32\<close>, which \<^verbatim>\<open>x | 0\<close> and \<^verbatim>\<open>x << 5\<close> apply to their results: the
  value modulo \<open>2^32\<close>, read as a signed 32-bit integer.
\<close>

definition toInt32 :: "int \<Rightarrow> int" where
  "toInt32 n = (n + 2 ^ 31) mod 2 ^ 32 - 2 ^ 31"

text \<open>
  The body of the loop of \<^verbatim>\<open>hashString\<close>:
  \<^verbatim>\<open>hash = (hash << 5) - hash + input.charCodeAt(index); hash |= 0\<close>. The subtraction
  and the addition are exact: their operands are below \<open>2^53\<close> in absolute value.
\<close>

definition hashStep :: "int \<Rightarrow> nat \<Rightarrow> int" where
  "hashStep hash code = toInt32 (toInt32 (hash * 2 ^ 5) - hash + int code)"

fun hashLoop :: "int \<Rightarrow> js_string \<Rightarrow> int" where
  "hashLoop hash [] = hash"
| "hashLoop hash (code # rest) = hashLoop (hashStep hash code) rest"

definition hashString :: "js_string \<Rightarrow> int" where
  "hashString input = hashLoop 0 input"

text \<open>
  \<^verbatim>\<open>a % b\<close> of JavaScript truncates towards zero: the result has the sign of \<open>a\<close>.
\<close>

definition js_rem :: "int \<Rightarrow> int \<Rightarrow> int" where
  "js_rem a b = sgn a * (\<bar>a\<bar> mod \<bar>b\<bar>)"





section \<open>Match orchestration: team and spawn validation\<close>

definition TEAM_NAMES :: "TeamName list" where
  "TEAM_NAMES = [counter, terror]"

text \<open>The loop that \<^verbatim>\<open>pickTeam\<close> runs inline over the merged string.\<close>

fun pickTeamLoop :: "int \<Rightarrow> js_string \<Rightarrow> int" where
  "pickTeamLoop hash [] = hash"
| "pickTeamLoop hash (code # rest) =
     pickTeamLoop (toInt32 (toInt32 (hash * 2 ^ 5) - hash + int code)) rest"

definition pickTeamHash :: "js_string \<Rightarrow> int" where
  "pickTeamHash merged = pickTeamLoop 0 merged"

definition pickTeam :: "js_string \<Rightarrow> js_string \<Rightarrow> TeamName" where
  "pickTeam playerName matchCode =
     (let merged = matchCode @ [58] @ playerName;
          hash = pickTeamHash merged
      in TEAM_NAMES ! nat (js_rem \<bar>hash\<bar> (int (length TEAM_NAMES))))"

text \<open>
  \<^verbatim>\<open>isSpawnSafe\<close> and \<^verbatim>\<open>resolveSpawnPoint\<close> are methods of the game object; its
  fields \<^verbatim>\<open>obstacles\<close> and \<^verbatim>\<open>spawnPoints\<close> are passed as arguments.
\<close>

fun isSpawnSafe :: "Aabb list \<Rightarrow> SpawnPoint \<Rightarrow> bool" where
  "isSpawnSafe [] spawn = True"
| "isSpawnSafe (obstacle # rest) spawn =
     (let radius = 65 / 100;
          feetY = yc spawn;
          headY = yc spawn + PLAYER_HEIGHT_STANDING;
          overlapsVertical =
            (feetY < yc (max_corner obstacle) \<and> headY > yc (min_corner obstacle))
      in if \<not> overlapsVertical then isSpawnSafe rest spawn
      else if xc spawn + radius \<le> xc (min_corner obstacle) \<or>
              xc spawn - radius \<ge> xc (max_corner obstacle) \<or>
              zc spawn + radius \<le> zc (min_corner obstacle) \<or>
              zc spawn - radius \<ge> zc (max_corner obstacle)
      then isSpawnSafe rest spawn
      else False)"

fun firstSafeSpawn :: "Aabb list \<Rightarrow> SpawnPoint list \<Rightarrow> SpawnPoint option" where
  "firstSafeSpawn obstacles [] = None"
| "firstSafeSpawn obstacles (spawn # rest) =
     (if isSpawnSafe obstacles spawn then Some spawn else firstSafeSpawn obstacles rest)"

definition resolveSpawnPoint :: "Aabb list \<Rightarrow> SpawnPoint list \<Rightarrow> SpawnPoint \<Rightarrow> SpawnPoint" where
  "resolveSpawnPoint obstacles spawnPoints preferred =
     (if isSpawnSafe obstacles preferred then preferred
      else case firstSafeSpawn obstacles spawnPoints of
             Some spawn \<Rightarrow> spawn
           | None \<Rightarrow> preferred)"


section \<open>The specification's formulas\<close>

text \<open>
  The hash as the specification words it: the running hash times 31 plus the code unit,
  wrapped to 32 bits at each character.
\<close>

fun rollingHash_spec :: "int \<Rightarrow> js_string \<Rightarrow> int" where
  "rollingHash_spec hash [] = hash"
| "rollingHash_spec hash (code # rest) = rollingHash_spec (toInt32 (hash * 31 + int code)) rest"

text \<open>
  The overlap that the specification words for \<^verbatim>\<open>isSpawnSafe\<close>: an upright cylinder
  of the given radius around the spawn point, from its \<open>y\<close> to \<open>y + height\<close>, against a
  box. The two solids overlap when their vertical extents do and the point of the box's
  footprint nearest to the axis is closer to it than the radius.
\<close>

definition cylinderOverlapsAabb_spec :: "real \<Rightarrow> real \<Rightarrow> SpawnPoint \<Rightarrow> Aabb \<Rightarrow> bool" where
  "cylinderOverlapsAabb_spec radius height spawn obstacle =
     (let nearestX = clamp (xc spawn) (xc (min_corner obstacle)) (xc (max_corner obstacle));
          nearestZ = clamp (zc spawn) (zc (min_corner obstacle)) (zc (max_corner obstacle))
      in yc spawn < yc (max_corner obstacle) \<and> yc spawn + height > yc (min_corner obstacle) \<and>
         (xc spawn - nearestX) ^ 2 + (zc spawn - nearestZ) ^ 2 < radius ^ 2)"

text \<open>
  The box that \<^verbatim>\<open>isSpawnSafe\<close> tests: the square of half-width \<open>radius\<close> around the
  spawn point, from its \<open>y\<close> to \<open>y + height\<close>, overlapping the obstacle on all three axes.
\<close>

definition boxOverlapsAabb :: "real \<Rightarrow> real \<Rightarrow> SpawnPoint \<Rightarrow> Aabb \<Rightarrow> bool" where
  "boxOverlapsAabb radius height spawn obstacle =
     (yc spawn < yc (max_corner obstacle) \<and> yc spawn + height > yc (min_corner obstacle) \<and>
      xc spawn + radius > xc (min_corner obstacle) \<and>
      xc spawn - radius < xc (max_corner obstacle) \<and>
      zc spawn + radius > zc (min_corner obstacle) \<and>
      zc spawn - radius < zc (max_corner obstacle))"

text \<open>
  The region that the collision resolver keeps the player out of: the footprint of the
  obstacle inflated by the player's radius on the \<open>x\<close> and \<open>z\<close> axes, at a height
  where the player's vertical span, from \<open>y\<close> to \<open>y + playerHeight\<close>, overlaps the
  obstacle's.
\<close>

definition insideInflatedFootprint :: "Vec3 \<Rightarrow> real \<Rightarrow> Aabb \<Rightarrow> bool" where
  "insideInflatedFootprint p playerHeight obstacle =
     (yc p < yc (max_corner obstacle) \<and> yc p + playerHeight > yc (min_corner obstacle) \<and>
      xc (min_corner obstacle) - PLAYER_RADIUS < xc p \<and>
      xc p < xc (max_corner obstacle) + PLAYER_RADIUS \<and>
      zc (min_corner obstacle) - PLAYER_RADIUS < zc p \<and>
      zc p < zc (max_corner obstacle) + PLAYER_RADIUS)"


section \<open>Weapon state machine: firing\<close>

text \<open>
  Claim C2. For every weapon runtime state (with a magazine count that is not negative)
  and every timestamp, \<open>tryFireWeapon\<close> fails with reason \<open>reloading\<close> while a reload is
  pending, otherwise with \<open>cooldown\<close> when less than the fire interval has passed since
  the last shot, otherwise with \<open>empty_mag\<close> when the magazine holds no round, and
  otherwise fires: the magazine loses exactly one round, \<open>lastShotAt\<close> becomes \<open>now\<close>,
  and the reserve, the pending reload and the weapon are untouched. A failing call
  returns its input state, and the magazine count of the returned state is not negative.
\<close>

theorem tryFireWeapon_outcomes:
  assumes "0 \<le> ammoInMag s"
  shows "(isReloading s now \<longrightarrow>
            tryFireWeapon s now = \<lparr> nextState = s, didFire = False, reason = reloading \<rparr>)
       \<and> (\<not> isReloading s now \<and> now - lastShotAt s < fireIntervalMs (WEAPONS (weaponId s)) \<longrightarrow>
            tryFireWeapon s now = \<lparr> nextState = s, didFire = False, reason = cooldown \<rparr>)
       \<and> (\<not> isReloading s now \<and> \<not> now - lastShotAt s < fireIntervalMs (WEAPONS (weaponId s))
            \<and> ammoInMag s = 0 \<longrightarrow>
            tryFireWeapon s now = \<lparr> nextState = s, didFire = False, reason = empty_mag \<rparr>)
       \<and> (\<not> isReloading s now \<and> \<not> now - lastShotAt s < fireIntervalMs (WEAPONS (weaponId s))
            \<and> ammoInMag s \<noteq> 0 \<longrightarrow>
            tryFireWeapon s now =
              \<lparr> nextState = s \<lparr> ammoInMag := ammoInMag s - 1, lastShotAt := now \<rparr>,
                didFire = True, reason = fired \<rparr>
            \<and> ammoInMag (nextState (tryFireWeapon s now)) = ammoInMag s - 1
            \<and> lastShotAt (nextState (tryFireWeapon s now)) = now
            \<and> ammoReserve (nextState (tryFireWeapon s now)) = ammoReserve s
            \<and> reloadingUntil (nextState (tryFireWeapon s now)) = reloadingUntil s
            \<and> weaponId (nextState (tryFireWeapon s now)) = weaponId s)
       \<and> (\<not> didFire (tryFireWeapon s now) \<longrightarrow> nextState (tryFireWeapon s now) = s)
       \<and> (didFire (tryFireWeapon s now) \<longleftrightarrow> reason (tryFireWeapon s now) = fired)
       \<and> 0 \<le> ammoInMag (nextState (tryFireWeapon s now))"
  using assms by (auto simp: tryFireWeapon_def isReloading_def Let_def split: option.splits)

theorem tryFireWeapon_outcomes_witness:
  "0 \<le> ammoInMag (createWeaponState pistol)
   \<and> tryFireWeapon (createWeaponState pistol) 1000 =
       \<lparr> nextState = (createWeaponState pistol) \<lparr> ammoInMag := 14, lastShotAt := 1000 \<rparr>,
         didFire = True, reason = fired \<rparr>
   \<and> reason (tryFireWeapon (nextState (tryFireWeapon (createWeaponState pistol) 1000)) 1001)
       = cooldown
   \<and> reason (tryFireWeapon ((createWeaponState pistol) \<lparr> ammoInMag := 0 \<rparr>) 1000) = empty_mag
   \<and> reason (tryFireWeapon ((createWeaponState pistol) \<lparr> reloadingUntil := Some 2600 \<rparr>) 1000)
       = reloading"
  using tryFireWeapon_outcomes [of "createWeaponState pistol" 1000]
    tryFireWeapon_outcomes
      [of "(createWeaponState pistol) \<lparr> ammoInMag := 14, lastShotAt := 1000 \<rparr>" 1001]
    tryFireWeapon_outcomes [of "(createWeaponState pistol) \<lparr> ammoInMag := 0 \<rparr>" 1000]
    tryFireWeapon_outcomes [of "(createWeaponState pistol) \<lparr> reloadingUntil := Some 2600 \<rparr>" 1000]
  by (simp add: createWeaponState_def isReloading_def MAX_SAFE_INTEGER_def)

section \<open>Weapon state machine: reloading\<close>

text \<open>
  Claim C4, as the code has it. For every weapon runtime state whose reserve is not
  negative and every timestamp: \<open>beginReload\<close> returns the state unchanged when a
  reload is already pending, when the magazine is full, or when the reserve is zero, and
  otherwise changes only \<open>reloadingUntil\<close>, to \<open>now + reloadMs\<close>. \<open>tickReload\<close> returns
  the state unchanged when no reload is pending or its time has not come, and otherwise
  moves exactly \<open>min (magSize - ammoInMag) ammoReserve\<close> rounds from the reserve into the
  magazine and clears \<open>reloadingUntil\<close>; the reserve never becomes negative. A weapon
  with one round in the magazine and a reserve of 20 ends a completed reload with a full
  magazine and a reserve of \<open>20 - (magSize - 1)\<close> when its magazine holds at most 21
  rounds (the shotgun and the pistol); a weapon with a larger magazine (the assault
  rifle) ends it with 21 rounds in the magazine and an empty reserve.
\<close>

theorem reload_transitions:
  assumes "0 \<le> ammoReserve s"
  shows "(reloadingUntil s \<noteq> None \<or> magSize (WEAPONS (weaponId s)) \<le> ammoInMag s
            \<or> ammoReserve s = 0 \<longrightarrow> beginReload s now = s)
       \<and> (reloadingUntil s = None \<and> ammoInMag s < magSize (WEAPONS (weaponId s))
            \<and> ammoReserve s \<noteq> 0 \<longrightarrow>
            beginReload s now = s \<lparr> reloadingUntil := Some (now + reloadMs (WEAPONS (weaponId s))) \<rparr>)
       \<and> (reloadingUntil s = None \<or> isReloading s now \<longrightarrow> tickReload s now = s)
       \<and> (reloadingUntil s \<noteq> None \<and> \<not> isReloading s now \<longrightarrow>
            tickReload s now =
              s \<lparr> ammoInMag := ammoInMag s
                      + min (magSize (WEAPONS (weaponId s)) - ammoInMag s) (ammoReserve s),
                  ammoReserve := ammoReserve s
                      - min (magSize (WEAPONS (weaponId s)) - ammoInMag s) (ammoReserve s),
                  reloadingUntil := None \<rparr>)
       \<and> 0 \<le> ammoReserve (beginReload s now)
       \<and> 0 \<le> ammoReserve (tickReload s now)
       \<and> ammoInMag (tickReload s now) + ammoReserve (tickReload s now)
            = ammoInMag s + ammoReserve s
       \<and> (ammoInMag s = 1 \<and> ammoReserve s = 20 \<and> reloadingUntil s = None \<and> 0 \<le> later \<longrightarrow>
            (let complete = tickReload (beginReload s now)
                              (now + reloadMs (WEAPONS (weaponId s)) + later)
             in reloadingUntil complete = None
                \<and> (magSize (WEAPONS (weaponId s)) \<le> 21 \<longrightarrow>
                     ammoInMag complete = magSize (WEAPONS (weaponId s))
                     \<and> ammoReserve complete = 20 - (magSize (WEAPONS (weaponId s)) - 1))
                \<and> (21 < magSize (WEAPONS (weaponId s)) \<longrightarrow>
                     ammoInMag complete = 21 \<and> ammoReserve complete = 0)))"
proof -
  have begin_cases: "(reloadingUntil s \<noteq> None \<or> magSize (WEAPONS (weaponId s)) \<le> ammoInMag s
            \<or> ammoReserve s = 0 \<longrightarrow> beginReload s now = s)
       \<and> (reloadingUntil s = None \<and> ammoInMag s < magSize (WEAPONS (weaponId s))
            \<and> ammoReserve s \<noteq> 0 \<longrightarrow>
            beginReload s now = s \<lparr> reloadingUntil := Some (now + reloadMs (WEAPONS (weaponId s))) \<rparr>)"
    using assms by (auto simp: beginReload_def Let_def)
  have tick_cases: "(reloadingUntil s = None \<or> isReloading s now \<longrightarrow> tickReload s now = s)
       \<and> (reloadingUntil s \<noteq> None \<and> \<not> isReloading s now \<longrightarrow>
            tickReload s now =
              s \<lparr> ammoInMag := ammoInMag s
                      + min (magSize (WEAPONS (weaponId s)) - ammoInMag s) (ammoReserve s),
                  ammoReserve := ammoReserve s
                      - min (magSize (WEAPONS (weaponId s)) - ammoInMag s) (ammoReserve s),
                  reloadingUntil := None \<rparr>)"
    by (auto simp: tickReload_def isReloading_def Let_def split: option.splits)
  have reserve: "0 \<le> ammoReserve (beginReload s now) \<and> 0 \<le> ammoReserve (tickReload s now)
       \<and> ammoInMag (tickReload s now) + ammoReserve (tickReload s now)
            = ammoInMag s + ammoReserve s"
    using assms by (auto simp: beginReload_def tickReload_def Let_def split: option.splits)
  have example: "ammoInMag s = 1 \<and> ammoReserve s = 20 \<and> reloadingUntil s = None \<and> 0 \<le> later \<longrightarrow>
            (let complete = tickReload (beginReload s now)
                              (now + reloadMs (WEAPONS (weaponId s)) + later)
             in reloadingUntil complete = None
                \<and> (magSize (WEAPONS (weaponId s)) \<le> 21 \<longrightarrow>
                     ammoInMag complete = magSize (WEAPONS (weaponId s))
                     \<and> ammoReserve complete = 20 - (magSize (WEAPONS (weaponId s)) - 1))
                \<and> (21 < magSize (WEAPONS (weaponId s)) \<longrightarrow>
                     ammoInMag complete = 21 \<and> ammoReserve complete = 0))"
    by (cases "weaponId s") (auto simp: beginReload_def tickReload_def Let_def)
  from begin_cases tick_cases reserve example show ?thesis by blast
qed

theorem reload_transitions_witness:
  "0 \<le> ammoReserve ((createWeaponState shotgun) \<lparr> ammoInMag := 1, ammoReserve := 20 \<rparr>)
   \<and> beginReload ((createWeaponState shotgun) \<lparr> ammoInMag := 1, ammoReserve := 20 \<rparr>) 5000
       = (createWeaponState shotgun)
           \<lparr> ammoInMag := 1, ammoReserve := 20, reloadingUntil := Some 7700 \<rparr>
   \<and> tickReload ((createWeaponState shotgun)
           \<lparr> ammoInMag := 1, ammoReserve := 20, reloadingUntil := Some 7700 \<rparr>) 7701
       = (createWeaponState shotgun) \<lparr> ammoInMag := 8, ammoReserve := 13 \<rparr>
   \<and> beginReload (createWeaponState pistol) 1000 = createWeaponState pistol"
  using reload_transitions
      [of "(createWeaponState shotgun) \<lparr> ammoInMag := 1, ammoReserve := 20 \<rparr>" 5000 1]
    reload_transitions
      [of "(createWeaponState shotgun)
             \<lparr> ammoInMag := 1, ammoReserve := 20, reloadingUntil := Some 7700 \<rparr>" 7701 0]
    reload_transitions [of "createWeaponState pistol" 1000 0]
  by (simp add: createWeaponState_def isReloading_def)

text \<open>
  The reload example of the claim fails for the assault rifle: its magazine of 30 needs
  29 rounds and the reserve has 20, so the reload ends with 21 rounds in the magazine.
\<close>

theorem reload_example_counterexample:
  "\<not> (ammoInMag (tickReload
          (beginReload ((createWeaponState assaultRifle) \<lparr> ammoInMag := 1, ammoReserve := 20 \<rparr>)
             5000) 7101) = magSize (WEAPONS assaultRifle)
      \<and> ammoReserve (tickReload
          (beginReload ((createWeaponState assaultRifle) \<lparr> ammoInMag := 1, ammoReserve := 20 \<rparr>)
             5000) 7101) = 20 - (magSize (WEAPONS assaultRifle) - 1))"
  by (simp add: createWeaponState_def beginReload_def tickReload_def)

section \<open>Kinematics: the collision resolver\<close>

text \<open>
  One iteration of the resolver either leaves the running position and velocity alone
  or moves the position onto one of the four inflated faces.
\<close>

lemma resolveObstacle_no_vertical:
  assumes "\<not> (b < yc (max_corner ob) \<and> t > yc (min_corner ob))"
  shows "resolveObstacle b t m ob = m"
  unfolding resolveObstacle_def Let_def using assms by (simp split del: if_split)

lemma resolveObstacle_no_horizontal:
  assumes "xc (position m) \<le> xc (min_corner ob) - PLAYER_RADIUS
      \<or> xc (position m) \<ge> xc (max_corner ob) + PLAYER_RADIUS
      \<or> zc (position m) \<le> zc (min_corner ob) - PLAYER_RADIUS
      \<or> zc (position m) \<ge> zc (max_corner ob) + PLAYER_RADIUS"
  shows "resolveObstacle b t m ob = m"
proof (cases "b < yc (max_corner ob) \<and> t > yc (min_corner ob)")
  case True
  with assms show ?thesis
    unfolding resolveObstacle_def Let_def
    by (elim disjE; simp split del: if_split)
next
  case False
  then show ?thesis
    unfolding resolveObstacle_def Let_def by (simp split del: if_split)
qed

lemma resolveObstacle_unchanged:
  assumes "\<not> insideInflatedFootprint (position m) (t - yc (position m)) ob"
  shows "resolveObstacle (yc (position m)) t m ob = m"
proof -
  from assms have "\<not> (yc (position m) < yc (max_corner ob) \<and> t > yc (min_corner ob))
      \<or> (xc (position m) \<le> xc (min_corner ob) - PLAYER_RADIUS
      \<or> xc (position m) \<ge> xc (max_corner ob) + PLAYER_RADIUS
      \<or> zc (position m) \<le> zc (min_corner ob) - PLAYER_RADIUS
      \<or> zc (position m) \<ge> zc (max_corner ob) + PLAYER_RADIUS)"
    unfolding insideInflatedFootprint_def by linarith
  then show ?thesis
    using resolveObstacle_no_vertical resolveObstacle_no_horizontal by blast
qed

lemma resolveObstacle_pushed:
  assumes "insideInflatedFootprint (position m) (t - yc (position m)) ob"
  shows "resolveObstacle (yc (position m)) t m ob =
     (let distanceToLeft = \<bar>xc (position m) - (xc (min_corner ob) - PLAYER_RADIUS)\<bar>;
          distanceToRight = \<bar>xc (max_corner ob) + PLAYER_RADIUS - xc (position m)\<bar>;
          distanceToBack = \<bar>zc (position m) - (zc (min_corner ob) - PLAYER_RADIUS)\<bar>;
          distanceToFront = \<bar>zc (max_corner ob) + PLAYER_RADIUS - zc (position m)\<bar>;
          minDistance =
            min distanceToLeft (min distanceToRight (min distanceToBack distanceToFront))
      in if minDistance = distanceToLeft
         then \<lparr> position = (position m) \<lparr> xc := xc (min_corner ob) - PLAYER_RADIUS \<rparr>,
                velocity = (velocity m) \<lparr> xc := min (xc (velocity m)) 0 \<rparr> \<rparr>
         else if minDistance = distanceToRight
         then \<lparr> position = (position m) \<lparr> xc := xc (max_corner ob) + PLAYER_RADIUS \<rparr>,
                velocity = (velocity m) \<lparr> xc := max (xc (velocity m)) 0 \<rparr> \<rparr>
         else if minDistance = distanceToBack
         then \<lparr> position = (position m) \<lparr> zc := zc (min_corner ob) - PLAYER_RADIUS \<rparr>,
                velocity = (velocity m) \<lparr> zc := min (zc (velocity m)) 0 \<rparr> \<rparr>
         else \<lparr> position = (position m) \<lparr> zc := zc (max_corner ob) + PLAYER_RADIUS \<rparr>,
                velocity = (velocity m) \<lparr> zc := max (zc (velocity m)) 0 \<rparr> \<rparr>)"
proof -
  from assms have v: "yc (position m) < yc (max_corner ob)" "t > yc (min_corner ob)"
    and h: "\<not> xc (position m) \<le> xc (min_corner ob) - PLAYER_RADIUS"
      "\<not> xc (position m) \<ge> xc (max_corner ob) + PLAYER_RADIUS"
      "\<not> zc (position m) \<le> zc (min_corner ob) - PLAYER_RADIUS"
      "\<not> zc (position m) \<ge> zc (max_corner ob) + PLAYER_RADIUS"
    by (simp_all add: insideInflatedFootprint_def)
  show ?thesis
    unfolding resolveObstacle_def Let_def
    by (simp only: v h simp_thms if_True if_False)
qed

lemma if_chain_cases:
  assumes "P a" "P w" "P x" "P y" "P z"
  shows "P (if c1 then a else if c2 then a else if c3 then w else if c4 then x
            else if c5 then y else z)"
  using assms by simp

lemma resolveObstacle_vertical:
  "yc (position (resolveObstacle b t m ob)) = yc (position m)
   \<and> yc (velocity (resolveObstacle b t m ob)) = yc (velocity m)"
  unfolding resolveObstacle_def Let_def
  by (rule if_chain_cases
        [where P = "\<lambda>r. yc (position r) = yc (position m) \<and> yc (velocity r) = yc (velocity m)"])
     simp_all
lemma if_chain_cases4:
  assumes "P w" "P x" "P y" "P z"
  shows "P (if c3 then w else if c4 then x else if c5 then y else z)"
  using assms by simp

lemma resolveObstacle_on_face:
  assumes "insideInflatedFootprint (position m) (t - yc (position m)) ob"
  shows "xc (position (resolveObstacle (yc (position m)) t m ob)) = xc (min_corner ob) - PLAYER_RADIUS
     \<or> xc (position (resolveObstacle (yc (position m)) t m ob)) = xc (max_corner ob) + PLAYER_RADIUS
     \<or> zc (position (resolveObstacle (yc (position m)) t m ob)) = zc (min_corner ob) - PLAYER_RADIUS
     \<or> zc (position (resolveObstacle (yc (position m)) t m ob)) = zc (max_corner ob) + PLAYER_RADIUS"
  unfolding resolveObstacle_pushed [OF assms] Let_def
  by (rule if_chain_cases4 [where P = "\<lambda>r. xc (position r) = xc (min_corner ob) - PLAYER_RADIUS
     \<or> xc (position r) = xc (max_corner ob) + PLAYER_RADIUS
     \<or> zc (position r) = zc (min_corner ob) - PLAYER_RADIUS
     \<or> zc (position r) = zc (max_corner ob) + PLAYER_RADIUS"]) simp_all

lemma resolveObstacle_outside:
  "\<not> insideInflatedFootprint (position (resolveObstacle (yc (position m)) (yc (position m) + h) m ob)) h ob"
proof (cases "insideInflatedFootprint (position m) h ob")
  case True
  then have "insideInflatedFootprint (position m) (yc (position m) + h - yc (position m)) ob" by simp
  from resolveObstacle_on_face [OF this]
  show ?thesis
    by (auto simp: insideInflatedFootprint_def)
next
  case False
  then have "\<not> insideInflatedFootprint (position m) (yc (position m) + h - yc (position m)) ob" by simp
  from resolveObstacle_unchanged [OF this] False show ?thesis by simp
qed

lemma resolveLoop_vertical:
  "yc (position (resolveLoop b t m obs)) = yc (position m)
   \<and> yc (velocity (resolveLoop b t m obs)) = yc (velocity m)"
  by (induction obs arbitrary: m) (simp_all add: resolveObstacle_vertical)

lemma resolveHorizontalCollisions_vertical:
  "yc (position (resolveHorizontalCollisions p v h obs)) = yc p
   \<and> yc (velocity (resolveHorizontalCollisions p v h obs)) = yc v"
  by (simp add: resolveHorizontalCollisions_def Let_def resolveLoop_vertical)

lemma resolveHorizontalCollisions_Nil:
  "resolveHorizontalCollisions p v h [] = \<lparr> position = p, velocity = v \<rparr>"
  by (simp add: resolveHorizontalCollisions_def Let_def)

lemma resolveHorizontalCollisions_single:
  "resolveHorizontalCollisions p v h [ob] =
     resolveObstacle (yc p) (yc p + h) \<lparr> position = p, velocity = v \<rparr> ob"
  by (simp add: resolveHorizontalCollisions_def Let_def)

lemma stepPlayerMovement_decompose:
  "stepPlayerMovement state input dt obstacles bounds =
     state \<lparr> position := position (resolveHorizontalCollisions
                 (position (stepPlayerMovement state input dt [] bounds))
                 (velocity (stepPlayerMovement state input dt [] bounds))
                 (if crouch input then PLAYER_HEIGHT_CROUCHING else PLAYER_HEIGHT_STANDING)
                 obstacles),
             velocity := velocity (resolveHorizontalCollisions
                 (position (stepPlayerMovement state input dt [] bounds))
                 (velocity (stepPlayerMovement state input dt [] bounds))
                 (if crouch input then PLAYER_HEIGHT_CROUCHING else PLAYER_HEIGHT_STANDING)
                 obstacles),
             grounded := grounded (stepPlayerMovement state input dt [] bounds),
             crouching := crouch input \<rparr>"
  unfolding stepPlayerMovement_def Let_def resolveHorizontalCollisions_Nil
  by (simp split del: if_split)

text \<open>
  The step function with the horizontal velocities abstracted: everything that the
  vertical motion, the integration and the collision step do depends on the
  acceleration step only through the two numbers \<open>vx\<close> and \<open>vz\<close>.
\<close>

lemma stepPlayerMovement_shape:
  "\<exists>vx vz.
     stepPlayerMovement state input dt obstacles bounds =
       (let jumping = (grounded state \<and> jump input \<and> \<not> crouch input);
            vy1 = (if jumping then JUMP_VELOCITY else yc (velocity state) - GRAVITY * dt);
            g1 = (if jumping then False else grounded state);
            p1 = \<lparr> xc = clamp (xc (position state) + vx * dt)
                            (minX bounds + PLAYER_RADIUS) (maxX bounds - PLAYER_RADIUS),
                   yc = yc (position state) + vy1 * dt,
                   zc = clamp (zc (position state) + vz * dt)
                            (minZ bounds + PLAYER_RADIUS) (maxZ bounds - PLAYER_RADIUS) \<rparr>;
            belowFloor = (yc p1 < floorY bounds);
            p = (if belowFloor then p1 \<lparr> yc := floorY bounds \<rparr> else p1);
            vy = (if belowFloor then 0 else vy1);
            g = (if belowFloor then True else g1);
            h = (if crouch input then PLAYER_HEIGHT_CROUCHING else PLAYER_HEIGHT_STANDING);
            cr = resolveHorizontalCollisions p \<lparr> xc = vx, yc = vy, zc = vz \<rparr> h obstacles
        in state \<lparr> position := position cr, velocity := velocity cr,
                   grounded := g, crouching := crouch input \<rparr>)"
  unfolding stepPlayerMovement_def Let_def
  by (intro exI) (rule refl)

lemma step_vertical:
  "(let r = stepPlayerMovement state input dt obstacles bounds;
        jumping = (grounded state \<and> jump input \<and> \<not> crouch input);
        vy = (if jumping then JUMP_VELOCITY else yc (velocity state) - GRAVITY * dt);
        y1 = yc (position state) + vy * dt
    in yc (position r) = (if y1 < floorY bounds then floorY bounds else y1)
     \<and> yc (velocity r) = (if y1 < floorY bounds then 0 else vy)
     \<and> grounded r = (if y1 < floorY bounds then True else if jumping then False else grounded state))"
proof -
  obtain vx vz where s: "stepPlayerMovement state input dt obstacles bounds =
       (let jumping = (grounded state \<and> jump input \<and> \<not> crouch input);
            vy1 = (if jumping then JUMP_VELOCITY else yc (velocity state) - GRAVITY * dt);
            g1 = (if jumping then False else grounded state);
            p1 = \<lparr> xc = clamp (xc (position state) + vx * dt)
                            (minX bounds + PLAYER_RADIUS) (maxX bounds - PLAYER_RADIUS),
                   yc = yc (position state) + vy1 * dt,
                   zc = clamp (zc (position state) + vz * dt)
                            (minZ bounds + PLAYER_RADIUS) (maxZ bounds - PLAYER_RADIUS) \<rparr>;
            belowFloor = (yc p1 < floorY bounds);
            p = (if belowFloor then p1 \<lparr> yc := floorY bounds \<rparr> else p1);
            vy = (if belowFloor then 0 else vy1);
            g = (if belowFloor then True else g1);
            h = (if crouch input then PLAYER_HEIGHT_CROUCHING else PLAYER_HEIGHT_STANDING);
            cr = resolveHorizontalCollisions p \<lparr> xc = vx, yc = vy, zc = vz \<rparr> h obstacles
        in state \<lparr> position := position cr, velocity := velocity cr,
                   grounded := g, crouching := crouch input \<rparr>)"
    using stepPlayerMovement_shape by blast
  show ?thesis
    unfolding s Let_def
    by (simp add: resolveHorizontalCollisions_vertical)
qed

lemma step_horizontal_free:
  "(let r = stepPlayerMovement state input dt [] bounds
    in xc (position r) = clamp (xc (position state) + xc (velocity r) * dt)
                           (minX bounds + PLAYER_RADIUS) (maxX bounds - PLAYER_RADIUS)
     \<and> zc (position r) = clamp (zc (position state) + zc (velocity r) * dt)
                           (minZ bounds + PLAYER_RADIUS) (maxZ bounds - PLAYER_RADIUS))"
proof -
  obtain vx vz where s: "stepPlayerMovement state input dt [] bounds =
       (let jumping = (grounded state \<and> jump input \<and> \<not> crouch input);
            vy1 = (if jumping then JUMP_VELOCITY else yc (velocity state) - GRAVITY * dt);
            g1 = (if jumping then False else grounded state);
            p1 = \<lparr> xc = clamp (xc (position state) + vx * dt)
                            (minX bounds + PLAYER_RADIUS) (maxX bounds - PLAYER_RADIUS),
                   yc = yc (position state) + vy1 * dt,
                   zc = clamp (zc (position state) + vz * dt)
                            (minZ bounds + PLAYER_RADIUS) (maxZ bounds - PLAYER_RADIUS) \<rparr>;
            belowFloor = (yc p1 < floorY bounds);
            p = (if belowFloor then p1 \<lparr> yc := floorY bounds \<rparr> else p1);
            vy = (if belowFloor then 0 else vy1);
            g = (if belowFloor then True else g1);
            h = (if crouch input then PLAYER_HEIGHT_CROUCHING else PLAYER_HEIGHT_STANDING);
            cr = resolveHorizontalCollisions p \<lparr> xc = vx, yc = vy, zc = vz \<rparr> h []
        in state \<lparr> position := position cr, velocity := velocity cr,
                   grounded := g, crouching := crouch input \<rparr>)"
    using stepPlayerMovement_shape by blast
  show ?thesis
    unfolding s Let_def resolveHorizontalCollisions_Nil
    by simp
qed


text \<open>Obstacles that do not contain the position leave it, and the velocity, alone.\<close>

lemma resolveLoop_unchanged:
  "\<forall>ob \<in> set obs. \<not> insideInflatedFootprint (position m) (t - yc (position m)) ob
   \<Longrightarrow> resolveLoop (yc (position m)) t m obs = m"
proof (induction obs)
  case Nil
  show ?case by simp
next
  case (Cons ob rest)
  then have "\<not> insideInflatedFootprint (position m) (t - yc (position m)) ob" by simp
  then have "resolveObstacle (yc (position m)) t m ob = m" by (rule resolveObstacle_unchanged)
  with Cons show ?case by simp
qed

lemma resolveHorizontalCollisions_unchanged:
  assumes "\<forall>ob \<in> set obs. \<not> insideInflatedFootprint p h ob"
  shows "resolveHorizontalCollisions p v h obs = \<lparr> position = p, velocity = v \<rparr>"
proof -
  let ?m = "\<lparr> position = p, velocity = v \<rparr>"
  from assms have "\<forall>ob \<in> set obs.
      \<not> insideInflatedFootprint (position ?m) (yc (position ?m) + h - yc (position ?m)) ob"
    by simp
  from resolveLoop_unchanged [OF this] show ?thesis
    by (simp add: resolveHorizontalCollisions_def Let_def)
qed


section \<open>Kinematics: the movement step\<close>

text \<open>
  Claim C10. For every player body state, input, time step, obstacle list and arena
  bounds, the state returned by \<open>stepPlayerMovement\<close> has the yaw and the pitch of the
  input state: it is the input state with nothing but \<open>position\<close>, \<open>velocity\<close>,
  \<open>grounded\<close> and \<open>crouching\<close> replaced.
\<close>

theorem stepPlayerMovement_frame:
  "yaw (stepPlayerMovement state input dt obstacles bounds) = yaw state
   \<and> pitch (stepPlayerMovement state input dt obstacles bounds) = pitch state
   \<and> stepPlayerMovement state input dt obstacles bounds =
       state \<lparr> position := position (stepPlayerMovement state input dt obstacles bounds),
               velocity := velocity (stepPlayerMovement state input dt obstacles bounds),
               grounded := grounded (stepPlayerMovement state input dt obstacles bounds),
               crouching := crouching (stepPlayerMovement state input dt obstacles bounds) \<rparr>"
  unfolding stepPlayerMovement_def Let_def
  by (simp split del: if_split)

text \<open>The two tests of \<open>clamp\<close>, in the order of the source.\<close>

lemma clamp_written_out:
  "clamp v lo hi = (if v < lo then lo else if hi < v then hi else v)"
  by (simp add: clamp_def)

text \<open>
  The step in terms of the call without obstacles (\<open>free\<close>): the vertical motion is
  that of the returned state, and the horizontal position and velocity returned are
  those of the collision resolver run on the position and velocity of \<open>free\<close>.
\<close>

lemma step_integration_core:
  "(let r = stepPlayerMovement state input dt obstacles bounds;
        free = stepPlayerMovement state input dt [] bounds;
        jumping = (grounded state \<and> jump input \<and> \<not> crouch input);
        vy = (if jumping then JUMP_VELOCITY else yc (velocity state) - GRAVITY * dt);
        y1 = yc (position state) + vy * dt;
        h = (if crouch input then PLAYER_HEIGHT_CROUCHING else PLAYER_HEIGHT_STANDING)
    in (y1 < floorY bounds \<longrightarrow>
          yc (position r) = floorY bounds \<and> yc (velocity r) = 0 \<and> grounded r)
     \<and> (\<not> y1 < floorY bounds \<longrightarrow>
          yc (position r) = y1 \<and> yc (velocity r) = vy
          \<and> grounded r = (\<not> jumping \<and> grounded state))
     \<and> xc (position free) = clamp (xc (position state) + xc (velocity free) * dt)
                               (minX bounds + PLAYER_RADIUS) (maxX bounds - PLAYER_RADIUS)
     \<and> zc (position free) = clamp (zc (position state) + zc (velocity free) * dt)
                               (minZ bounds + PLAYER_RADIUS) (maxZ bounds - PLAYER_RADIUS)
     \<and> yc (position free) = yc (position r) \<and> yc (velocity free) = yc (velocity r)
     \<and> grounded free = grounded r
     \<and> position r = position (resolveHorizontalCollisions (position free) (velocity free) h obstacles)
     \<and> velocity r = velocity (resolveHorizontalCollisions (position free) (velocity free) h obstacles)
     \<and> ((\<forall>ob \<in> set obstacles. \<not> insideInflatedFootprint (position free) h ob) \<longrightarrow>
          position r = position free \<and> velocity r = velocity free))"
proof -
  have v: "\<And>obs. (let r = stepPlayerMovement state input dt obs bounds;
        jumping = (grounded state \<and> jump input \<and> \<not> crouch input);
        vy = (if jumping then JUMP_VELOCITY else yc (velocity state) - GRAVITY * dt);
        y1 = yc (position state) + vy * dt
    in yc (position r) = (if y1 < floorY bounds then floorY bounds else y1)
     \<and> yc (velocity r) = (if y1 < floorY bounds then 0 else vy)
     \<and> grounded r = (if y1 < floorY bounds then True else if jumping then False else grounded state))"
    by (rule step_vertical)
  have d: "position (stepPlayerMovement state input dt obstacles bounds) =
        position (resolveHorizontalCollisions
                 (position (stepPlayerMovement state input dt [] bounds))
                 (velocity (stepPlayerMovement state input dt [] bounds))
                 (if crouch input then PLAYER_HEIGHT_CROUCHING else PLAYER_HEIGHT_STANDING)
                 obstacles)
     \<and> velocity (stepPlayerMovement state input dt obstacles bounds) =
        velocity (resolveHorizontalCollisions
                 (position (stepPlayerMovement state input dt [] bounds))
                 (velocity (stepPlayerMovement state input dt [] bounds))
                 (if crouch input then PLAYER_HEIGHT_CROUCHING else PLAYER_HEIGHT_STANDING)
                 obstacles)"
    by (subst stepPlayerMovement_decompose, simp split del: if_split)+
  have u: "position (stepPlayerMovement state input dt obstacles bounds)
           = position (stepPlayerMovement state input dt [] bounds)
         \<and> velocity (stepPlayerMovement state input dt obstacles bounds)
           = velocity (stepPlayerMovement state input dt [] bounds)"
    if "\<forall>ob \<in> set obstacles.
          \<not> insideInflatedFootprint (position (stepPlayerMovement state input dt [] bounds))
              (if crouch input then PLAYER_HEIGHT_CROUCHING else PLAYER_HEIGHT_STANDING) ob"
    using d resolveHorizontalCollisions_unchanged [OF that] by simp
  have "(\<forall>ob \<in> set obstacles.
          \<not> insideInflatedFootprint (position (stepPlayerMovement state input dt [] bounds))
              (if crouch input then PLAYER_HEIGHT_CROUCHING else PLAYER_HEIGHT_STANDING) ob)
        \<longrightarrow> position (stepPlayerMovement state input dt obstacles bounds)
           = position (stepPlayerMovement state input dt [] bounds)
         \<and> velocity (stepPlayerMovement state input dt obstacles bounds)
           = velocity (stepPlayerMovement state input dt [] bounds)"
    using u by blast
  then show ?thesis
    using v [of obstacles] v [of "[]"] step_horizontal_free [of state input dt bounds] d
    unfolding Let_def by (simp split: if_splits)
qed

text \<open>
  Claim C8, as the code has it. In every call of \<open>stepPlayerMovement\<close>: when the
  player is grounded, a jump is requested and crouch is not held, the vertical velocity
  becomes the jump velocity and \<open>grounded\<close> is cleared, and in every other case gravity
  times \<open>dt\<close> is taken off the vertical velocity; the new height is the old one plus
  that velocity times \<open>dt\<close>, and when it is below the floor the returned position is on
  the floor, the returned vertical velocity is zero and \<open>grounded\<close> is set. These hold
  of the returned state for every obstacle list. The position before obstacles are
  resolved, which is what the step returns when there is no obstacle (\<open>free\<close>), has
  its \<open>x\<close> and \<open>z\<close> equal to the old ones plus the new velocity times \<open>dt\<close>, clamped:
  the lower bound when below it, else the upper bound when above it, else the value
  itself; so it lies within the arena's bounds inset by the player's radius whenever
  these are ordered. The returned \<open>x\<close> and \<open>z\<close> are these clamped values whenever no
  obstacle has that position inside its inflated footprint, and are otherwise the
  collision resolver's output on it, which the bounds do not constrain.
\<close>

theorem stepPlayerMovement_vertical_and_integration:
  "(let r = stepPlayerMovement state input dt obstacles bounds;
        free = stepPlayerMovement state input dt [] bounds;
        jumping = (grounded state \<and> jump input \<and> \<not> crouch input);
        vy = (if jumping then JUMP_VELOCITY else yc (velocity state) - GRAVITY * dt);
        y1 = yc (position state) + vy * dt;
        h = (if crouch input then PLAYER_HEIGHT_CROUCHING else PLAYER_HEIGHT_STANDING);
        loX = minX bounds + PLAYER_RADIUS; hiX = maxX bounds - PLAYER_RADIUS;
        loZ = minZ bounds + PLAYER_RADIUS; hiZ = maxZ bounds - PLAYER_RADIUS;
        x1 = xc (position state) + xc (velocity free) * dt;
        z1 = zc (position state) + zc (velocity free) * dt
    in (y1 < floorY bounds \<longrightarrow>
          yc (position r) = floorY bounds \<and> yc (velocity r) = 0 \<and> grounded r)
     \<and> (\<not> y1 < floorY bounds \<longrightarrow>
          yc (position r) = y1 \<and> yc (velocity r) = vy
          \<and> grounded r = (\<not> jumping \<and> grounded state))
     \<and> xc (position free) = clamp x1 loX hiX
     \<and> zc (position free) = clamp z1 loZ hiZ
     \<and> xc (position free) = (if x1 < loX then loX else if hiX < x1 then hiX else x1)
     \<and> zc (position free) = (if z1 < loZ then loZ else if hiZ < z1 then hiZ else z1)
     \<and> (loX \<le> hiX \<longrightarrow> loX \<le> xc (position free) \<and> xc (position free) \<le> hiX)
     \<and> (loZ \<le> hiZ \<longrightarrow> loZ \<le> zc (position free) \<and> zc (position free) \<le> hiZ)
     \<and> yc (position free) = yc (position r) \<and> yc (velocity free) = yc (velocity r)
     \<and> grounded free = grounded r
     \<and> position r = position (resolveHorizontalCollisions (position free) (velocity free) h obstacles)
     \<and> velocity r = velocity (resolveHorizontalCollisions (position free) (velocity free) h obstacles)
     \<and> ((\<forall>ob \<in> set obstacles. \<not> insideInflatedFootprint (position free) h ob) \<longrightarrow>
          position r = position free \<and> velocity r = velocity free
          \<and> xc (position r) = (if x1 < loX then loX else if hiX < x1 then hiX else x1)
          \<and> zc (position r) = (if z1 < loZ then loZ else if hiZ < z1 then hiZ else z1)
          \<and> (loX \<le> hiX \<longrightarrow> loX \<le> xc (position r) \<and> xc (position r) \<le> hiX)
          \<and> (loZ \<le> hiZ \<longrightarrow> loZ \<le> zc (position r) \<and> zc (position r) \<le> hiZ)))"
proof -
  have within: "lo \<le> hi \<longrightarrow> lo \<le> clamp v lo hi \<and> clamp v lo hi \<le> hi" for v lo hi :: real
    by (simp add: clamp_def)
  note c = step_integration_core [of state input dt obstacles bounds, unfolded Let_def]
  note c1 = c [THEN conjunct1]
  note c2 = c [THEN conjunct2, THEN conjunct1]
  note cx = c [THEN conjunct2, THEN conjunct2, THEN conjunct1]
  note cz = c [THEN conjunct2, THEN conjunct2, THEN conjunct2, THEN conjunct1]
  note r5 = c [THEN conjunct2, THEN conjunct2, THEN conjunct2, THEN conjunct2]
  note cy = r5 [THEN conjunct1]
  note cvy = r5 [THEN conjunct2, THEN conjunct1]
  note cg = r5 [THEN conjunct2, THEN conjunct2, THEN conjunct1]
  note cp = r5 [THEN conjunct2, THEN conjunct2, THEN conjunct2, THEN conjunct1]
  note cv = r5 [THEN conjunct2, THEN conjunct2, THEN conjunct2, THEN conjunct2, THEN conjunct1]
  note cu = r5 [THEN conjunct2, THEN conjunct2, THEN conjunct2, THEN conjunct2, THEN conjunct2]
  show ?thesis
    unfolding Let_def
    apply (intro conjI)
    subgoal by (rule c1)
    subgoal by (rule c2)
    subgoal by (rule cx)
    subgoal by (rule cz)
    subgoal by (simp only: cx clamp_written_out)
    subgoal by (simp only: cz clamp_written_out)
    subgoal unfolding cx by (rule within)
    subgoal unfolding cz by (rule within)
    subgoal by (rule cy)
    subgoal by (rule cvy)
    subgoal by (rule cg)
    subgoal by (rule cp)
    subgoal by (rule cv)
    subgoal
    proof (rule impI)
      assume "\<forall>ob \<in> set obstacles.
          \<not> insideInflatedFootprint (position (stepPlayerMovement state input dt [] bounds))
              (if crouch input then PLAYER_HEIGHT_CROUCHING else PLAYER_HEIGHT_STANDING) ob"
      from cu [THEN mp, OF this]
      have p: "position (stepPlayerMovement state input dt obstacles bounds)
               = position (stepPlayerMovement state input dt [] bounds)"
        and v: "velocity (stepPlayerMovement state input dt obstacles bounds)
               = velocity (stepPlayerMovement state input dt [] bounds)"
        by simp_all
      show "position (stepPlayerMovement state input dt obstacles bounds) =
         position (stepPlayerMovement state input dt [] bounds) \<and>
         velocity (stepPlayerMovement state input dt obstacles bounds) =
         velocity (stepPlayerMovement state input dt [] bounds) \<and>
         xc (position (stepPlayerMovement state input dt obstacles bounds)) =
         (if xc (position state) +
             xc (velocity (stepPlayerMovement state input dt [] bounds)) * dt
             < minX bounds + PLAYER_RADIUS
          then minX bounds + PLAYER_RADIUS
          else if maxX bounds - PLAYER_RADIUS
                  < xc (position state) +
                    xc (velocity (stepPlayerMovement state input dt [] bounds)) * dt
               then maxX bounds - PLAYER_RADIUS
               else xc (position state) +
                    xc (velocity (stepPlayerMovement state input dt [] bounds)) * dt) \<and>
         zc (position (stepPlayerMovement state input dt obstacles bounds)) =
         (if zc (position state) +
             zc (velocity (stepPlayerMovement state input dt [] bounds)) * dt
             < minZ bounds + PLAYER_RADIUS
          then minZ bounds + PLAYER_RADIUS
          else if maxZ bounds - PLAYER_RADIUS
                  < zc (position state) +
                    zc (velocity (stepPlayerMovement state input dt [] bounds)) * dt
               then maxZ bounds - PLAYER_RADIUS
               else zc (position state) +
                    zc (velocity (stepPlayerMovement state input dt [] bounds)) * dt) \<and>
         (minX bounds + PLAYER_RADIUS \<le> maxX bounds - PLAYER_RADIUS \<longrightarrow>
          minX bounds + PLAYER_RADIUS
          \<le> xc (position (stepPlayerMovement state input dt obstacles bounds)) \<and>
          xc (position (stepPlayerMovement state input dt obstacles bounds))
          \<le> maxX bounds - PLAYER_RADIUS) \<and>
         (minZ bounds + PLAYER_RADIUS \<le> maxZ bounds - PLAYER_RADIUS \<longrightarrow>
          minZ bounds + PLAYER_RADIUS
          \<le> zc (position (stepPlayerMovement state input dt obstacles bounds)) \<and>
          zc (position (stepPlayerMovement state input dt obstacles bounds))
          \<le> maxZ bounds - PLAYER_RADIUS)"
        unfolding p v
        apply (intro conjI)
        subgoal by (rule refl)
        subgoal by (rule refl)
        subgoal by (simp only: cx clamp_written_out)
        subgoal by (simp only: cz clamp_written_out)
        subgoal unfolding cx by (rule within)
        subgoal unfolding cz by (rule within)
        done
    qed
    done
qed

theorem stepPlayerMovement_vertical_and_integration_witness:
  "yc (position (stepPlayerMovement
      \<lparr> position = \<lparr> xc = 0, yc = 0, zc = 0 \<rparr>, velocity = \<lparr> xc = 0, yc = 0, zc = 0 \<rparr>,
        yaw = 0, pitch = 0, grounded = True, crouching = False \<rparr>
      \<lparr> moveForward = False, moveBackward = False, moveLeft = False, moveRight = False,
        sprint = False, crouch = False, jump = True, firing = False \<rparr>
      (1 / 32) []
      \<lparr> minX = - 10, maxX = 10, minZ = - 10, maxZ = 10, floorY = 0 \<rparr>)) = 89 / 320
   \<and> yc (velocity (stepPlayerMovement
      \<lparr> position = \<lparr> xc = 0, yc = 0, zc = 0 \<rparr>, velocity = \<lparr> xc = 0, yc = 0, zc = 0 \<rparr>,
        yaw = 0, pitch = 0, grounded = True, crouching = False \<rparr>
      \<lparr> moveForward = False, moveBackward = False, moveLeft = False, moveRight = False,
        sprint = False, crouch = False, jump = True, firing = False \<rparr>
      (1 / 32) []
      \<lparr> minX = - 10, maxX = 10, minZ = - 10, maxZ = 10, floorY = 0 \<rparr>)) = 89 / 10
   \<and> \<not> grounded (stepPlayerMovement
      \<lparr> position = \<lparr> xc = 0, yc = 0, zc = 0 \<rparr>, velocity = \<lparr> xc = 0, yc = 0, zc = 0 \<rparr>,
        yaw = 0, pitch = 0, grounded = True, crouching = False \<rparr>
      \<lparr> moveForward = False, moveBackward = False, moveLeft = False, moveRight = False,
        sprint = False, crouch = False, jump = True, firing = False \<rparr>
      (1 / 32) []
      \<lparr> minX = - 10, maxX = 10, minZ = - 10, maxZ = 10, floorY = 0 \<rparr>)
   \<and> yc (position (stepPlayerMovement
      \<lparr> position = \<lparr> xc = 0, yc = 1 / 100, zc = 0 \<rparr>, velocity = \<lparr> xc = 0, yc = - 1, zc = 0 \<rparr>,
        yaw = 0, pitch = 0, grounded = False, crouching = False \<rparr>
      \<lparr> moveForward = False, moveBackward = False, moveLeft = False, moveRight = False,
        sprint = False, crouch = False, jump = True, firing = False \<rparr>
      (1 / 32) []
      \<lparr> minX = - 10, maxX = 10, minZ = - 10, maxZ = 10, floorY = 0 \<rparr>)) = 0
   \<and> yc (velocity (stepPlayerMovement
      \<lparr> position = \<lparr> xc = 0, yc = 1 / 100, zc = 0 \<rparr>, velocity = \<lparr> xc = 0, yc = - 1, zc = 0 \<rparr>,
        yaw = 0, pitch = 0, grounded = False, crouching = False \<rparr>
      \<lparr> moveForward = False, moveBackward = False, moveLeft = False, moveRight = False,
        sprint = False, crouch = False, jump = True, firing = False \<rparr>
      (1 / 32) []
      \<lparr> minX = - 10, maxX = 10, minZ = - 10, maxZ = 10, floorY = 0 \<rparr>)) = 0
   \<and> grounded (stepPlayerMovement
      \<lparr> position = \<lparr> xc = 0, yc = 1 / 100, zc = 0 \<rparr>, velocity = \<lparr> xc = 0, yc = - 1, zc = 0 \<rparr>,
        yaw = 0, pitch = 0, grounded = False, crouching = False \<rparr>
      \<lparr> moveForward = False, moveBackward = False, moveLeft = False, moveRight = False,
        sprint = False, crouch = False, jump = True, firing = False \<rparr>
      (1 / 32) []
      \<lparr> minX = - 10, maxX = 10, minZ = - 10, maxZ = 10, floorY = 0 \<rparr>)
   \<and> \<not> insideInflatedFootprint (position (stepPlayerMovement
      \<lparr> position = \<lparr> xc = 96 / 10, yc = 0, zc = 0 \<rparr>, velocity = \<lparr> xc = 56 / 10, yc = 0, zc = 0 \<rparr>,
        yaw = 0, pitch = 0, grounded = True, crouching = False \<rparr>
      \<lparr> moveForward = False, moveBackward = False, moveLeft = False, moveRight = True,
        sprint = False, crouch = False, jump = False, firing = False \<rparr>
      (1 / 32) []
      \<lparr> minX = - 10, maxX = 10, minZ = - 10, maxZ = 10, floorY = 0 \<rparr>)) PLAYER_HEIGHT_STANDING
       \<lparr> min_corner = \<lparr> xc = - (95 / 10), yc = 0, zc = - 1 \<rparr>, max_corner = \<lparr> xc = - 9, yc = 2, zc = 1 \<rparr> \<rparr>
   \<and> xc (velocity (stepPlayerMovement
      \<lparr> position = \<lparr> xc = 96 / 10, yc = 0, zc = 0 \<rparr>, velocity = \<lparr> xc = 56 / 10, yc = 0, zc = 0 \<rparr>,
        yaw = 0, pitch = 0, grounded = True, crouching = False \<rparr>
      \<lparr> moveForward = False, moveBackward = False, moveLeft = False, moveRight = True,
        sprint = False, crouch = False, jump = False, firing = False \<rparr>
      (1 / 32) [\<lparr> min_corner = \<lparr> xc = - (95 / 10), yc = 0, zc = - 1 \<rparr>, max_corner = \<lparr> xc = - 9, yc = 2, zc = 1 \<rparr> \<rparr>]
      \<lparr> minX = - 10, maxX = 10, minZ = - 10, maxZ = 10, floorY = 0 \<rparr>)) = 56 / 10
   \<and> xc (position (stepPlayerMovement
      \<lparr> position = \<lparr> xc = 96 / 10, yc = 0, zc = 0 \<rparr>, velocity = \<lparr> xc = 56 / 10, yc = 0, zc = 0 \<rparr>,
        yaw = 0, pitch = 0, grounded = True, crouching = False \<rparr>
      \<lparr> moveForward = False, moveBackward = False, moveLeft = False, moveRight = True,
        sprint = False, crouch = False, jump = False, firing = False \<rparr>
      (1 / 32) [\<lparr> min_corner = \<lparr> xc = - (95 / 10), yc = 0, zc = - 1 \<rparr>, max_corner = \<lparr> xc = - 9, yc = 2, zc = 1 \<rparr> \<rparr>]
      \<lparr> minX = - 10, maxX = 10, minZ = - 10, maxZ = 10, floorY = 0 \<rparr>)) = 966 / 100
   \<and> xc (position (stepPlayerMovement
      \<lparr> position = \<lparr> xc = - (96 / 10), yc = 0, zc = 0 \<rparr>, velocity = \<lparr> xc = 0, yc = 0, zc = 0 \<rparr>,
        yaw = 0, pitch = 0, grounded = True, crouching = False \<rparr>
      \<lparr> moveForward = False, moveBackward = False, moveLeft = False, moveRight = False,
        sprint = False, crouch = False, jump = False, firing = False \<rparr>
      (1 / 32) [\<lparr> min_corner = \<lparr> xc = - (95 / 10), yc = 0, zc = - 1 \<rparr>, max_corner = \<lparr> xc = - 9, yc = 2, zc = 1 \<rparr> \<rparr>]
      \<lparr> minX = - 10, maxX = 10, minZ = - 10, maxZ = 10, floorY = 0 \<rparr>)) = - (984 / 100)"
proof -
  have ea: "stepPlayerMovement
      \<lparr> position = \<lparr> xc = 0, yc = 0, zc = 0 \<rparr>, velocity = \<lparr> xc = 0, yc = 0, zc = 0 \<rparr>,
        yaw = 0, pitch = 0, grounded = True, crouching = False \<rparr>
      \<lparr> moveForward = False, moveBackward = False, moveLeft = False, moveRight = False,
        sprint = False, crouch = False, jump = True, firing = False \<rparr>
      (1 / 32) []
      \<lparr> minX = - 10, maxX = 10, minZ = - 10, maxZ = 10, floorY = 0 \<rparr>
      = \<lparr> position = \<lparr> xc = 0, yc = 89 / 320, zc = 0 \<rparr>, velocity = \<lparr> xc = 0, yc = 89 / 10, zc = 0 \<rparr>,
        yaw = 0, pitch = 0, grounded = False, crouching = False \<rparr>"
    by (simp add: stepPlayerMovement_def Let_def approach_def clamp_def hypot_def
          resolveHorizontalCollisions_def resolveObstacle_def
          PLAYER_RADIUS_def PLAYER_HEIGHT_STANDING_def
          WALK_SPEED_def ACCELERATION_def FRICTION_def GRAVITY_def JUMP_VELOCITY_def)
  have eb: "stepPlayerMovement
      \<lparr> position = \<lparr> xc = 0, yc = 1 / 100, zc = 0 \<rparr>, velocity = \<lparr> xc = 0, yc = - 1, zc = 0 \<rparr>,
        yaw = 0, pitch = 0, grounded = False, crouching = False \<rparr>
      \<lparr> moveForward = False, moveBackward = False, moveLeft = False, moveRight = False,
        sprint = False, crouch = False, jump = True, firing = False \<rparr>
      (1 / 32) []
      \<lparr> minX = - 10, maxX = 10, minZ = - 10, maxZ = 10, floorY = 0 \<rparr>
      = \<lparr> position = \<lparr> xc = 0, yc = 0, zc = 0 \<rparr>, velocity = \<lparr> xc = 0, yc = 0, zc = 0 \<rparr>,
        yaw = 0, pitch = 0, grounded = True, crouching = False \<rparr>"
    by (simp add: stepPlayerMovement_def Let_def approach_def clamp_def hypot_def
          resolveHorizontalCollisions_def resolveObstacle_def
          PLAYER_RADIUS_def PLAYER_HEIGHT_STANDING_def
          WALK_SPEED_def ACCELERATION_def FRICTION_def GRAVITY_def JUMP_VELOCITY_def)
  have ec: "stepPlayerMovement
      \<lparr> position = \<lparr> xc = 96 / 10, yc = 0, zc = 0 \<rparr>, velocity = \<lparr> xc = 56 / 10, yc = 0, zc = 0 \<rparr>,
        yaw = 0, pitch = 0, grounded = True, crouching = False \<rparr>
      \<lparr> moveForward = False, moveBackward = False, moveLeft = False, moveRight = True,
        sprint = False, crouch = False, jump = False, firing = False \<rparr>
      (1 / 32) [\<lparr> min_corner = \<lparr> xc = - (95 / 10), yc = 0, zc = - 1 \<rparr>, max_corner = \<lparr> xc = - 9, yc = 2, zc = 1 \<rparr> \<rparr>]
      \<lparr> minX = - 10, maxX = 10, minZ = - 10, maxZ = 10, floorY = 0 \<rparr>
      = \<lparr> position = \<lparr> xc = 966 / 100, yc = 0, zc = 0 \<rparr>, velocity = \<lparr> xc = 56 / 10, yc = 0, zc = 0 \<rparr>,
        yaw = 0, pitch = 0, grounded = True, crouching = False \<rparr>"
    by (simp add: stepPlayerMovement_def Let_def approach_def clamp_def hypot_def
          resolveHorizontalCollisions_def resolveObstacle_def
          PLAYER_RADIUS_def PLAYER_HEIGHT_STANDING_def
          WALK_SPEED_def ACCELERATION_def FRICTION_def GRAVITY_def JUMP_VELOCITY_def)
  have ecf: "stepPlayerMovement
      \<lparr> position = \<lparr> xc = 96 / 10, yc = 0, zc = 0 \<rparr>, velocity = \<lparr> xc = 56 / 10, yc = 0, zc = 0 \<rparr>,
        yaw = 0, pitch = 0, grounded = True, crouching = False \<rparr>
      \<lparr> moveForward = False, moveBackward = False, moveLeft = False, moveRight = True,
        sprint = False, crouch = False, jump = False, firing = False \<rparr>
      (1 / 32) []
      \<lparr> minX = - 10, maxX = 10, minZ = - 10, maxZ = 10, floorY = 0 \<rparr>
      = \<lparr> position = \<lparr> xc = 966 / 100, yc = 0, zc = 0 \<rparr>, velocity = \<lparr> xc = 56 / 10, yc = 0, zc = 0 \<rparr>,
        yaw = 0, pitch = 0, grounded = True, crouching = False \<rparr>"
    by (simp add: stepPlayerMovement_def Let_def approach_def clamp_def hypot_def
          resolveHorizontalCollisions_def resolveObstacle_def
          PLAYER_RADIUS_def PLAYER_HEIGHT_STANDING_def
          WALK_SPEED_def ACCELERATION_def FRICTION_def GRAVITY_def JUMP_VELOCITY_def)
  have ed: "stepPlayerMovement
      \<lparr> position = \<lparr> xc = - (96 / 10), yc = 0, zc = 0 \<rparr>, velocity = \<lparr> xc = 0, yc = 0, zc = 0 \<rparr>,
        yaw = 0, pitch = 0, grounded = True, crouching = False \<rparr>
      \<lparr> moveForward = False, moveBackward = False, moveLeft = False, moveRight = False,
        sprint = False, crouch = False, jump = False, firing = False \<rparr>
      (1 / 32) [\<lparr> min_corner = \<lparr> xc = - (95 / 10), yc = 0, zc = - 1 \<rparr>, max_corner = \<lparr> xc = - 9, yc = 2, zc = 1 \<rparr> \<rparr>]
      \<lparr> minX = - 10, maxX = 10, minZ = - 10, maxZ = 10, floorY = 0 \<rparr>
      = \<lparr> position = \<lparr> xc = - (984 / 100), yc = 0, zc = 0 \<rparr>, velocity = \<lparr> xc = 0, yc = 0, zc = 0 \<rparr>,
        yaw = 0, pitch = 0, grounded = True, crouching = False \<rparr>"
    by (simp add: stepPlayerMovement_def Let_def approach_def clamp_def hypot_def
          resolveHorizontalCollisions_def resolveObstacle_def
          PLAYER_RADIUS_def PLAYER_HEIGHT_STANDING_def
          WALK_SPEED_def ACCELERATION_def FRICTION_def GRAVITY_def JUMP_VELOCITY_def)
  show ?thesis
    using stepPlayerMovement_vertical_and_integration
      [of "\<lparr> position = \<lparr> xc = 0, yc = 0, zc = 0 \<rparr>, velocity = \<lparr> xc = 0, yc = 0, zc = 0 \<rparr>,
        yaw = 0, pitch = 0, grounded = True, crouching = False \<rparr>"
      "\<lparr> moveForward = False, moveBackward = False, moveLeft = False, moveRight = False,
        sprint = False, crouch = False, jump = True, firing = False \<rparr>"
      "1 / 32" "[]"
      "\<lparr> minX = - 10, maxX = 10, minZ = - 10, maxZ = 10, floorY = 0 \<rparr>"]
      stepPlayerMovement_vertical_and_integration
      [of "\<lparr> position = \<lparr> xc = 0, yc = 1 / 100, zc = 0 \<rparr>, velocity = \<lparr> xc = 0, yc = - 1, zc = 0 \<rparr>,
        yaw = 0, pitch = 0, grounded = False, crouching = False \<rparr>"
      "\<lparr> moveForward = False, moveBackward = False, moveLeft = False, moveRight = False,
        sprint = False, crouch = False, jump = True, firing = False \<rparr>"
      "1 / 32" "[]"
      "\<lparr> minX = - 10, maxX = 10, minZ = - 10, maxZ = 10, floorY = 0 \<rparr>"]
      stepPlayerMovement_vertical_and_integration
      [of "\<lparr> position = \<lparr> xc = 96 / 10, yc = 0, zc = 0 \<rparr>, velocity = \<lparr> xc = 56 / 10, yc = 0, zc = 0 \<rparr>,
        yaw = 0, pitch = 0, grounded = True, crouching = False \<rparr>"
      "\<lparr> moveForward = False, moveBackward = False, moveLeft = False, moveRight = True,
        sprint = False, crouch = False, jump = False, firing = False \<rparr>"
      "1 / 32" "[\<lparr> min_corner = \<lparr> xc = - (95 / 10), yc = 0, zc = - 1 \<rparr>, max_corner = \<lparr> xc = - 9, yc = 2, zc = 1 \<rparr> \<rparr>]"
      "\<lparr> minX = - 10, maxX = 10, minZ = - 10, maxZ = 10, floorY = 0 \<rparr>"]
      stepPlayerMovement_vertical_and_integration
      [of "\<lparr> position = \<lparr> xc = - (96 / 10), yc = 0, zc = 0 \<rparr>, velocity = \<lparr> xc = 0, yc = 0, zc = 0 \<rparr>,
        yaw = 0, pitch = 0, grounded = True, crouching = False \<rparr>"
      "\<lparr> moveForward = False, moveBackward = False, moveLeft = False, moveRight = False,
        sprint = False, crouch = False, jump = False, firing = False \<rparr>"
      "1 / 32" "[\<lparr> min_corner = \<lparr> xc = - (95 / 10), yc = 0, zc = - 1 \<rparr>, max_corner = \<lparr> xc = - 9, yc = 2, zc = 1 \<rparr> \<rparr>]"
      "\<lparr> minX = - 10, maxX = 10, minZ = - 10, maxZ = 10, floorY = 0 \<rparr>"]
    unfolding ea eb ec ecf ed
    by (simp add: insideInflatedFootprint_def PLAYER_RADIUS_def PLAYER_HEIGHT_STANDING_def)
qed

text \<open>
  The returned position is not the clamped one in every call: standing at \<open>x = -9.6\<close>
  in an arena whose inset lower bound is \<open>-9.66\<close>, next to a box that spans \<open>x\<close> from
  \<open>-9.5\<close> to \<open>-9\<close>, the player is moved to the box's inflated left face at \<open>-9.84\<close>,
  beyond the bound.
\<close>

theorem stepPlayerMovement_clamped_counterexample:
  "\<not> (xc (position (stepPlayerMovement
      \<lparr> position = \<lparr> xc = - (96 / 10), yc = 0, zc = 0 \<rparr>, velocity = \<lparr> xc = 0, yc = 0, zc = 0 \<rparr>,
        yaw = 0, pitch = 0, grounded = True, crouching = False \<rparr>
      \<lparr> moveForward = False, moveBackward = False, moveLeft = False, moveRight = False,
        sprint = False, crouch = False, jump = False, firing = False \<rparr>
      (1 / 32) [\<lparr> min_corner = \<lparr> xc = - (95 / 10), yc = 0, zc = - 1 \<rparr>, max_corner = \<lparr> xc = - 9, yc = 2, zc = 1 \<rparr> \<rparr>]
      \<lparr> minX = - 10, maxX = 10, minZ = - 10, maxZ = 10, floorY = 0 \<rparr>))
        = clamp (- (96 / 10) + xc (velocity (stepPlayerMovement
      \<lparr> position = \<lparr> xc = - (96 / 10), yc = 0, zc = 0 \<rparr>, velocity = \<lparr> xc = 0, yc = 0, zc = 0 \<rparr>,
        yaw = 0, pitch = 0, grounded = True, crouching = False \<rparr>
      \<lparr> moveForward = False, moveBackward = False, moveLeft = False, moveRight = False,
        sprint = False, crouch = False, jump = False, firing = False \<rparr>
      (1 / 32) [\<lparr> min_corner = \<lparr> xc = - (95 / 10), yc = 0, zc = - 1 \<rparr>, max_corner = \<lparr> xc = - 9, yc = 2, zc = 1 \<rparr> \<rparr>]
      \<lparr> minX = - 10, maxX = 10, minZ = - 10, maxZ = 10, floorY = 0 \<rparr>)) * (1 / 32))
            (minX \<lparr> minX = - 10, maxX = 10, minZ = - 10, maxZ = 10, floorY = 0 \<rparr> + PLAYER_RADIUS)
            (maxX \<lparr> minX = - 10, maxX = 10, minZ = - 10, maxZ = 10, floorY = 0 \<rparr> - PLAYER_RADIUS))
   \<and> \<not> (minX \<lparr> minX = - 10, maxX = 10, minZ = - 10, maxZ = 10, floorY = 0 \<rparr> + PLAYER_RADIUS
        \<le> xc (position (stepPlayerMovement
      \<lparr> position = \<lparr> xc = - (96 / 10), yc = 0, zc = 0 \<rparr>, velocity = \<lparr> xc = 0, yc = 0, zc = 0 \<rparr>,
        yaw = 0, pitch = 0, grounded = True, crouching = False \<rparr>
      \<lparr> moveForward = False, moveBackward = False, moveLeft = False, moveRight = False,
        sprint = False, crouch = False, jump = False, firing = False \<rparr>
      (1 / 32) [\<lparr> min_corner = \<lparr> xc = - (95 / 10), yc = 0, zc = - 1 \<rparr>, max_corner = \<lparr> xc = - 9, yc = 2, zc = 1 \<rparr> \<rparr>]
      \<lparr> minX = - 10, maxX = 10, minZ = - 10, maxZ = 10, floorY = 0 \<rparr>)))"
proof -
  have e: "stepPlayerMovement
      \<lparr> position = \<lparr> xc = - (96 / 10), yc = 0, zc = 0 \<rparr>, velocity = \<lparr> xc = 0, yc = 0, zc = 0 \<rparr>,
        yaw = 0, pitch = 0, grounded = True, crouching = False \<rparr>
      \<lparr> moveForward = False, moveBackward = False, moveLeft = False, moveRight = False,
        sprint = False, crouch = False, jump = False, firing = False \<rparr>
      (1 / 32) [\<lparr> min_corner = \<lparr> xc = - (95 / 10), yc = 0, zc = - 1 \<rparr>, max_corner = \<lparr> xc = - 9, yc = 2, zc = 1 \<rparr> \<rparr>]
      \<lparr> minX = - 10, maxX = 10, minZ = - 10, maxZ = 10, floorY = 0 \<rparr>
      = \<lparr> position = \<lparr> xc = - (984 / 100), yc = 0, zc = 0 \<rparr>, velocity = \<lparr> xc = 0, yc = 0, zc = 0 \<rparr>,
        yaw = 0, pitch = 0, grounded = True, crouching = False \<rparr>"
    by (simp add: stepPlayerMovement_def Let_def approach_def clamp_def hypot_def
          resolveHorizontalCollisions_def resolveObstacle_def
          PLAYER_RADIUS_def PLAYER_HEIGHT_STANDING_def
          WALK_SPEED_def ACCELERATION_def FRICTION_def GRAVITY_def JUMP_VELOCITY_def)
  show ?thesis unfolding e by (simp add: clamp_def PLAYER_RADIUS_def)
qed

text \<open>
  Claim C5. For every player body state, input, time step, arena bounds and obstacle
  list made of a single box, the position returned by \<open>stepPlayerMovement\<close> is never
  strictly inside the box's footprint inflated by the player's radius while the
  player's vertical span overlaps the box's. When the integrated position (\<open>p\<close> below)
  is not inside, it is returned as it is, with its velocity; when it is inside, it is
  moved to the inflated face of least penetration (left, right, back, front, in this
  order on ties) and the velocity component that points into the box through that face
  is zeroed.
\<close>

theorem stepPlayerMovement_containment:
  "(let r = stepPlayerMovement state input dt [ob] bounds;
        free = stepPlayerMovement state input dt [] bounds;
        h = (if crouch input then PLAYER_HEIGHT_CROUCHING else PLAYER_HEIGHT_STANDING);
        p = position free; v = velocity free;
        left = xc (min_corner ob) - PLAYER_RADIUS; right = xc (max_corner ob) + PLAYER_RADIUS;
        back = zc (min_corner ob) - PLAYER_RADIUS; front = zc (max_corner ob) + PLAYER_RADIUS;
        d = min (xc p - left) (min (right - xc p) (min (zc p - back) (front - zc p)))
    in \<not> insideInflatedFootprint (position r) h ob
     \<and> (\<not> insideInflatedFootprint p h ob \<longrightarrow> position r = p \<and> velocity r = v)
     \<and> (insideInflatedFootprint p h ob \<longrightarrow>
          (d = xc p - left \<longrightarrow>
             position r = p \<lparr> xc := left \<rparr> \<and> velocity r = v \<lparr> xc := min (xc v) 0 \<rparr>)
        \<and> (d \<noteq> xc p - left \<and> d = right - xc p \<longrightarrow>
             position r = p \<lparr> xc := right \<rparr> \<and> velocity r = v \<lparr> xc := max (xc v) 0 \<rparr>)
        \<and> (d \<noteq> xc p - left \<and> d \<noteq> right - xc p \<and> d = zc p - back \<longrightarrow>
             position r = p \<lparr> zc := back \<rparr> \<and> velocity r = v \<lparr> zc := min (zc v) 0 \<rparr>)
        \<and> (d \<noteq> xc p - left \<and> d \<noteq> right - xc p \<and> d \<noteq> zc p - back \<longrightarrow>
             position r = p \<lparr> zc := front \<rparr> \<and> velocity r = v \<lparr> zc := max (zc v) 0 \<rparr>)))"
proof -
  define p where "p = position (stepPlayerMovement state input dt [] bounds)"
  define v where "v = velocity (stepPlayerMovement state input dt [] bounds)"
  define h where "h = (if crouch input then PLAYER_HEIGHT_CROUCHING else PLAYER_HEIGHT_STANDING)"
  define m where "m = \<lparr> position = p, velocity = v \<rparr>"
  define r where "r = stepPlayerMovement state input dt [ob] bounds"
  have pm: "position m = p" "velocity m = v" by (simp_all add: m_def)
  have r: "position r = position (resolveObstacle (yc (position m)) (yc (position m) + h) m ob)"
       "velocity r = velocity (resolveObstacle (yc (position m)) (yc (position m) + h) m ob)"
    unfolding r_def pm
    by (subst stepPlayerMovement_decompose,
        simp add: resolveHorizontalCollisions_single p_def v_def h_def m_def split del: if_split)+
  have out: "\<not> insideInflatedFootprint (position r) h ob"
    unfolding r by (rule resolveObstacle_outside)
  have same: "position r = p \<and> velocity r = v" if "\<not> insideInflatedFootprint p h ob"
  proof -
    from that have "\<not> insideInflatedFootprint (position m) (yc (position m) + h - yc (position m)) ob"
      by (simp add: pm)
    from resolveObstacle_unchanged [OF this] show ?thesis by (simp add: r pm)
  qed
  have push: "resolveObstacle (yc p) (yc p + h) m ob =
     (let distanceToLeft = \<bar>xc p - (xc (min_corner ob) - PLAYER_RADIUS)\<bar>;
          distanceToRight = \<bar>xc (max_corner ob) + PLAYER_RADIUS - xc p\<bar>;
          distanceToBack = \<bar>zc p - (zc (min_corner ob) - PLAYER_RADIUS)\<bar>;
          distanceToFront = \<bar>zc (max_corner ob) + PLAYER_RADIUS - zc p\<bar>;
          minDistance =
            min distanceToLeft (min distanceToRight (min distanceToBack distanceToFront))
      in if minDistance = distanceToLeft
         then \<lparr> position = p \<lparr> xc := xc (min_corner ob) - PLAYER_RADIUS \<rparr>,
                velocity = v \<lparr> xc := min (xc v) 0 \<rparr> \<rparr>
         else if minDistance = distanceToRight
         then \<lparr> position = p \<lparr> xc := xc (max_corner ob) + PLAYER_RADIUS \<rparr>,
                velocity = v \<lparr> xc := max (xc v) 0 \<rparr> \<rparr>
         else if minDistance = distanceToBack
         then \<lparr> position = p \<lparr> zc := zc (min_corner ob) - PLAYER_RADIUS \<rparr>,
                velocity = v \<lparr> zc := min (zc v) 0 \<rparr> \<rparr>
         else \<lparr> position = p \<lparr> zc := zc (max_corner ob) + PLAYER_RADIUS \<rparr>,
                velocity = v \<lparr> zc := max (zc v) 0 \<rparr> \<rparr>)"
    if "insideInflatedFootprint p h ob"
  proof -
    from that have "insideInflatedFootprint (position m) (yc (position m) + h - yc (position m)) ob"
      by (simp add: pm)
    from resolveObstacle_pushed [OF this] show ?thesis
      by (simp only: pm)
  qed
  have ab: "\<bar>xc p - (xc (min_corner ob) - PLAYER_RADIUS)\<bar> = xc p - (xc (min_corner ob) - PLAYER_RADIUS)"
    "\<bar>xc (max_corner ob) + PLAYER_RADIUS - xc p\<bar> = xc (max_corner ob) + PLAYER_RADIUS - xc p"
    "\<bar>zc p - (zc (min_corner ob) - PLAYER_RADIUS)\<bar> = zc p - (zc (min_corner ob) - PLAYER_RADIUS)"
    "\<bar>zc (max_corner ob) + PLAYER_RADIUS - zc p\<bar> = zc (max_corner ob) + PLAYER_RADIUS - zc p"
    if "insideInflatedFootprint p h ob"
    using that by (simp_all add: insideInflatedFootprint_def)
  have pushed: "(let left = xc (min_corner ob) - PLAYER_RADIUS; right = xc (max_corner ob) + PLAYER_RADIUS;
        back = zc (min_corner ob) - PLAYER_RADIUS; front = zc (max_corner ob) + PLAYER_RADIUS;
        d = min (xc p - left) (min (right - xc p) (min (zc p - back) (front - zc p)))
     in (d = xc p - left \<longrightarrow>
             position r = p \<lparr> xc := left \<rparr> \<and> velocity r = v \<lparr> xc := min (xc v) 0 \<rparr>)
        \<and> (d \<noteq> xc p - left \<and> d = right - xc p \<longrightarrow>
             position r = p \<lparr> xc := right \<rparr> \<and> velocity r = v \<lparr> xc := max (xc v) 0 \<rparr>)
        \<and> (d \<noteq> xc p - left \<and> d \<noteq> right - xc p \<and> d = zc p - back \<longrightarrow>
             position r = p \<lparr> zc := back \<rparr> \<and> velocity r = v \<lparr> zc := min (zc v) 0 \<rparr>)
        \<and> (d \<noteq> xc p - left \<and> d \<noteq> right - xc p \<and> d \<noteq> zc p - back \<longrightarrow>
             position r = p \<lparr> zc := front \<rparr> \<and> velocity r = v \<lparr> zc := max (zc v) 0 \<rparr>))"
    if "insideInflatedFootprint p h ob"
    unfolding r pm push [OF that] ab [OF that] Let_def
    by (intro conjI impI; simp split del: if_split)
  show ?thesis
    using out same pushed
    unfolding Let_def p_def [symmetric] v_def [symmetric] h_def [symmetric] r_def [symmetric]
    by blast
qed

theorem stepPlayerMovement_containment_witness:
  "insideInflatedFootprint (position (stepPlayerMovement
      \<lparr> position = \<lparr> xc = 0, yc = 0, zc = 1 \<rparr>, velocity = \<lparr> xc = 0, yc = 0, zc = - (56 / 10) \<rparr>,
        yaw = 0, pitch = 0, grounded = True, crouching = False \<rparr>
      \<lparr> moveForward = True, moveBackward = False, moveLeft = False, moveRight = False,
        sprint = False, crouch = False, jump = False, firing = False \<rparr>
      (1 / 32) []
      \<lparr> minX = - 10, maxX = 10, minZ = - 10, maxZ = 10, floorY = 0 \<rparr>))
      PLAYER_HEIGHT_STANDING
      \<lparr> min_corner = \<lparr> xc = - 1, yc = 0, zc = - 1 \<rparr>, max_corner = \<lparr> xc = 1, yc = 2, zc = 1 / 2 \<rparr> \<rparr>
   \<and> stepPlayerMovement
      \<lparr> position = \<lparr> xc = 0, yc = 0, zc = 1 \<rparr>, velocity = \<lparr> xc = 0, yc = 0, zc = - (56 / 10) \<rparr>,
        yaw = 0, pitch = 0, grounded = True, crouching = False \<rparr>
      \<lparr> moveForward = True, moveBackward = False, moveLeft = False, moveRight = False,
        sprint = False, crouch = False, jump = False, firing = False \<rparr>
      (1 / 32)
      [\<lparr> min_corner = \<lparr> xc = - 1, yc = 0, zc = - 1 \<rparr>, max_corner = \<lparr> xc = 1, yc = 2, zc = 1 / 2 \<rparr> \<rparr>]
      \<lparr> minX = - 10, maxX = 10, minZ = - 10, maxZ = 10, floorY = 0 \<rparr>
     = \<lparr> position = \<lparr> xc = 0, yc = 0, zc = 84 / 100 \<rparr>, velocity = \<lparr> xc = 0, yc = 0, zc = 0 \<rparr>,
        yaw = 0, pitch = 0, grounded = True, crouching = False \<rparr>
   \<and> \<not> insideInflatedFootprint \<lparr> xc = 0, yc = 0, zc = 84 / 100 \<rparr> PLAYER_HEIGHT_STANDING
      \<lparr> min_corner = \<lparr> xc = - 1, yc = 0, zc = - 1 \<rparr>, max_corner = \<lparr> xc = 1, yc = 2, zc = 1 / 2 \<rparr> \<rparr>"
  using stepPlayerMovement_containment
      [of "\<lparr> position = \<lparr> xc = 0, yc = 0, zc = 1 \<rparr>, velocity = \<lparr> xc = 0, yc = 0, zc = - (56 / 10) \<rparr>,
        yaw = 0, pitch = 0, grounded = True, crouching = False \<rparr>"
      "\<lparr> moveForward = True, moveBackward = False, moveLeft = False, moveRight = False,
        sprint = False, crouch = False, jump = False, firing = False \<rparr>"
      "1 / 32"
      "\<lparr> min_corner = \<lparr> xc = - 1, yc = 0, zc = - 1 \<rparr>, max_corner = \<lparr> xc = 1, yc = 2, zc = 1 / 2 \<rparr> \<rparr>"
      "\<lparr> minX = - 10, maxX = 10, minZ = - 10, maxZ = 10, floorY = 0 \<rparr>"]
  by (simp add: stepPlayerMovement_def Let_def approach_def clamp_def hypot_def
        resolveHorizontalCollisions_def resolveObstacle_def insideInflatedFootprint_def
        PLAYER_RADIUS_def PLAYER_HEIGHT_STANDING_def
        WALK_SPEED_def ACCELERATION_def FRICTION_def GRAVITY_def JUMP_VELOCITY_def)

section \<open>Damage model\<close>

text \<open>
  Claim C1. For every damage state, raw damage and armor penetration, \<open>applyDamage\<close>
  spends \<open>armorToSpend = min armor (rawDamage * clamp (1 - armorPenetration) 0 1 * 0.65)\<close>
  armor and removes \<open>rawDamage - armorToSpend * 0.55\<close> health, with the new armor and the
  new health floored at 0; \<open>damageApplied\<close> is the old health minus the new one,
  \<open>isEliminated\<close> holds exactly when the new health is 0, and neither the new health
  nor the new armor is negative. With an armor penetration of 1 the armor of a damage
  state (whose armor, as the data model has it, is not negative) is unchanged.
\<close>

theorem applyDamage_resolution:
  "(let r = applyDamage state rawDamage pen;
        armorToSpend = min (armor state) (rawDamage * clamp (1 - pen) 0 1 * (65 / 100))
    in armor r = max 0 (armor state - armorToSpend)
     \<and> health r = max 0 (health state - (rawDamage - armorToSpend * (55 / 100)))
     \<and> damageApplied r = health state - health r
     \<and> isEliminated r = (health r = 0)
     \<and> 0 \<le> health r \<and> 0 \<le> armor r
     \<and> (pen = 1 \<and> 0 \<le> armor state \<longrightarrow> armor r = armor state))"
  by (auto simp: applyDamage_def Let_def clamp_def)

theorem applyDamage_resolution_witness:
  "armor (applyDamage \<lparr> health = 100, armor = 50 \<rparr> 28 1) = 50
   \<and> health (applyDamage \<lparr> health = 100, armor = 50 \<rparr> 28 1) = 72
   \<and> armor (applyDamage \<lparr> health = 100, armor = 100 \<rparr> 28 (57 / 100)) = 92174 / 1000
   \<and> health (applyDamage \<lparr> health = 100, armor = 100 \<rparr> 28 (57 / 100)) = 763043 / 10000
   \<and> damageApplied (applyDamage \<lparr> health = 100, armor = 100 \<rparr> 28 (57 / 100)) = 236957 / 10000
   \<and> \<not> isEliminated (applyDamage \<lparr> health = 100, armor = 100 \<rparr> 28 (57 / 100))
   \<and> isEliminated (applyDamage \<lparr> health = 20, armor = 0 \<rparr> 28 (57 / 100))"
  using applyDamage_resolution [of "\<lparr> health = 100, armor = 50 \<rparr>" 28 1]
    applyDamage_resolution [of "\<lparr> health = 100, armor = 100 \<rparr>" 28 "57 / 100"]
    applyDamage_resolution [of "\<lparr> health = 20, armor = 0 \<rparr>" 28 "57 / 100"]
  by (simp add: Let_def clamp_def)

text \<open>A rounded value that is at least one more than another rounds strictly higher.\<close>

lemma round_step: "x + 1 \<le> y \<Longrightarrow> round x < round (y::real)"
proof -
  assume a: "x + 1 \<le> y"
  have "round x + 1 = round (x + 1)" unfolding round_def by linarith
  also have "\<dots> \<le> round y" using a by (rule round_mono)
  finally show ?thesis by simp
qed

lemma body_damage_at_least:
  "round (baseDamage (WEAPONS w) * max (28 / 100) (1 - d * falloffPerMeter (WEAPONS w))) \<ge> 3"
proof -
  have gen: "336 / 100 \<le> baseDamage (WEAPONS w) * s" if "28 / 100 \<le> s" for s :: real
    using that by (cases w) simp_all
  have "336 / 100 \<le> baseDamage (WEAPONS w) * max (28 / 100) (1 - d * falloffPerMeter (WEAPONS w))"
    by (rule gen) (rule max.cobounded1)
  then have "round (336 / 100 :: real)
      \<le> round (baseDamage (WEAPONS w) * max (28 / 100) (1 - d * falloffPerMeter (WEAPONS w)))"
    by (rule round_mono)
  moreover have "round (336 / 100 :: real) = 3" unfolding round_def by linarith
  ultimately show ?thesis by simp
qed

lemma headshot_gain:
  "baseDamage (WEAPONS w) * max (28 / 100) (1 - d * falloffPerMeter (WEAPONS w)) + 1
   \<le> baseDamage (WEAPONS w) * max (28 / 100) (1 - d * falloffPerMeter (WEAPONS w))
       * headshotMultiplier (WEAPONS w)"
proof -
  have gen: "baseDamage (WEAPONS w) * s + 1
      \<le> baseDamage (WEAPONS w) * s * headshotMultiplier (WEAPONS w)"
    if "28 / 100 \<le> s" for s :: real
    using that by (cases w) simp_all
  show ?thesis by (rule gen) (rule max.cobounded1)
qed

text \<open>
  Claim C3. For every weapon, distance and headshot flag, \<open>computeWeaponDamage\<close> is
  \<open>max 1 (round (baseDamage * max 0.28 (1 - d * falloffPerMeter) * m))\<close> with \<open>m\<close> the
  headshot multiplier for a headshot and 1 otherwise. The result is at least 1; at the
  same distance a headshot does at least the damage of a body hit, and strictly more for
  each of the three weapons, whose headshot multipliers all exceed 1. The statement
  holds at every distance, the distances \<open>d \<ge> 0\<close> of the claim among them.
\<close>

theorem computeWeaponDamage_formula:
  "computeWeaponDamage w d hs =
     max 1 (round (baseDamage (WEAPONS w)
                   * max (28 / 100) (1 - d * falloffPerMeter (WEAPONS w))
                   * (if hs then headshotMultiplier (WEAPONS w) else 1)))
   \<and> 1 \<le> computeWeaponDamage w d hs
   \<and> computeWeaponDamage w d False \<le> computeWeaponDamage w d True
   \<and> 1 < headshotMultiplier (WEAPONS w)
   \<and> computeWeaponDamage w d False < computeWeaponDamage w d True"
proof -
  have f: "computeWeaponDamage w d hs =
     max 1 (round (baseDamage (WEAPONS w)
                   * max (28 / 100) (1 - d * falloffPerMeter (WEAPONS w))
                   * (if hs then headshotMultiplier (WEAPONS w) else 1)))" for hs
    by (simp add: computeWeaponDamage_def Let_def)
  have m: "1 < headshotMultiplier (WEAPONS w)" by (cases w) simp_all
  have "round (baseDamage (WEAPONS w) * max (28 / 100) (1 - d * falloffPerMeter (WEAPONS w)))
        < round (baseDamage (WEAPONS w) * max (28 / 100) (1 - d * falloffPerMeter (WEAPONS w))
                 * headshotMultiplier (WEAPONS w))"
    by (rule round_step [OF headshot_gain])
  with body_damage_at_least [of w d]
  have "computeWeaponDamage w d False < computeWeaponDamage w d True"
    unfolding f by simp
  with f m show ?thesis by simp
qed

text \<open>The pistol at five metres, and the shotgun far beyond its range.\<close>

lemma computeWeaponDamage_examples: "computeWeaponDamage pistol 5 False = 28 \<and> computeWeaponDamage pistol 5 True = 82
  \<and> computeWeaponDamage shotgun 1000 False = 3"
  by (simp add: computeWeaponDamage_def Let_def round_def)

section \<open>The rolling hash\<close>

text \<open>
  \<open>ToInt32\<close> keeps the value modulo \<open>2^32\<close> and lands in the signed 32-bit range, so
  one round of the loop is the running hash times 31 plus the code unit, wrapped.
\<close>

lemma toInt32_cong: "a mod 2 ^ 32 = b mod 2 ^ 32 \<Longrightarrow> toInt32 a = toInt32 b"
proof -
  assume "a mod 2 ^ 32 = b mod 2 ^ 32"
  then have "(a + 2 ^ 31) mod 2 ^ 32 = (b + 2 ^ 31) mod (2 ^ 32 :: int)"
    by (metis mod_add_left_eq)
  then show ?thesis by (simp add: toInt32_def)
qed

lemma toInt32_mod: "toInt32 n mod 2 ^ 32 = n mod 2 ^ 32"
proof -
  have "toInt32 n = (n + 2 ^ 31) mod 2 ^ 32 + - (2 ^ 31)" by (simp add: toInt32_def)
  then have "toInt32 n mod 2 ^ 32 = ((n + 2 ^ 31) mod 2 ^ 32 + - (2 ^ 31)) mod 2 ^ 32" by simp
  also have "\<dots> = (n + 2 ^ 31 + - (2 ^ 31)) mod 2 ^ 32" by (rule mod_add_left_eq)
  finally show ?thesis by simp
qed


lemma hashStep_spec: "hashStep hash code = toInt32 (hash * 31 + int code)"
proof -
  have "toInt32 (hash * 2 ^ 5) - hash + int code = toInt32 (hash * 2 ^ 5) + (- hash + int code)"
    by simp
  then have "(toInt32 (hash * 2 ^ 5) - hash + int code) mod 2 ^ 32
        = (toInt32 (hash * 2 ^ 5) + (- hash + int code)) mod 2 ^ 32"
    by (rule arg_cong)
  also have "\<dots> = (toInt32 (hash * 2 ^ 5) mod 2 ^ 32 + (- hash + int code)) mod 2 ^ 32"
    by (rule mod_add_left_eq [symmetric])
  also have "\<dots> = ((hash * 2 ^ 5) mod 2 ^ 32 + (- hash + int code)) mod 2 ^ 32"
    by (simp only: toInt32_mod)
  also have "\<dots> = (hash * 2 ^ 5 + (- hash + int code)) mod 2 ^ 32"
    by (rule mod_add_left_eq)
  also have "hash * 2 ^ 5 + (- hash + int code) = hash * 31 + int code" by simp
  finally show ?thesis unfolding hashStep_def by (rule toInt32_cong)
qed

lemma hashLoop_spec: "hashLoop hash input = rollingHash_spec hash input"
  by (induction input arbitrary: hash) (simp_all add: hashStep_spec)

lemma pickTeamLoop_hashLoop: "pickTeamLoop hash input = hashLoop hash input"
  by (induction input arbitrary: hash) (simp_all add: hashStep_def)



lemma js_rem_nonneg: "0 \<le> a \<Longrightarrow> 0 < b \<Longrightarrow> js_rem a b = a mod b"
  by (cases "a = 0") (simp_all add: js_rem_def)

lemma index_in_range:
  assumes "xs \<noteq> []"
  shows "nat (js_rem \<bar>h\<bar> (int (length xs))) = nat \<bar>h\<bar> mod length xs
         \<and> nat \<bar>h\<bar> mod length xs < length xs"
proof -
  from assms have l: "0 < int (length xs)" by simp
  have "js_rem \<bar>h\<bar> (int (length xs)) = \<bar>h\<bar> mod int (length xs)"
    by (rule js_rem_nonneg [OF _ l]) simp
  moreover have "nat (\<bar>h\<bar> mod int (length xs)) = nat \<bar>h\<bar> mod length xs"
    by (simp add: nat_mod_distrib)
  ultimately show ?thesis using assms by simp
qed



text \<open>
  Claim C9. The hash that \<open>pickTeam\<close> computes inline is, for every string, the
  \<open>hashString\<close> of \<open>pickSpawnPoint\<close>, and both are the wrapped rolling hash of the
  specification; the team is the entry of \<open>TEAM_NAMES\<close> at \<open>abs (hash (matchCode : playerName)) mod 2\<close>,
  an index of that list, and it depends on nothing but the two strings.
\<close>

theorem pickTeam_same_hash:
  "pickTeamHash input = hashString input
   \<and> pickTeamHash input = rollingHash_spec 0 input
   \<and> nat \<bar>hashString (matchCode @ [58] @ playerName)\<bar> mod 2 < length TEAM_NAMES
   \<and> pickTeam playerName matchCode
       = TEAM_NAMES ! (nat \<bar>hashString (matchCode @ [58] @ playerName)\<bar> mod 2)"
proof -
  have e: "pickTeamHash s = hashString s" for s
    by (simp add: pickTeamHash_def hashString_def pickTeamLoop_hashLoop)
  have n: "TEAM_NAMES \<noteq> []" by (simp add: TEAM_NAMES_def)
  note i = index_in_range [OF n, of "hashString (matchCode @ [58] @ playerName)"]
  have l: "length TEAM_NAMES = 2" by (simp add: TEAM_NAMES_def)
  have "pickTeam playerName matchCode
       = TEAM_NAMES ! (nat \<bar>hashString (matchCode @ [58] @ playerName)\<bar> mod 2)"
    using i unfolding l by (simp add: pickTeam_def Let_def e l)
  with e i l show ?thesis by (simp add: hashString_def hashLoop_spec)
qed

text \<open>Two teams: player \<^verbatim>\<open>Operator\<close> in match \<^verbatim>\<open>DUST-SIM\<close>, player \<^verbatim>\<open>B\<close> in match \<^verbatim>\<open>A\<close>.\<close>

lemma pickTeam_examples:
  "pickTeam [79, 112, 101, 114, 97, 116, 111, 114] [68, 85, 83, 84, 45, 83, 73, 77] = counter
   \<and> pickTeam [66] [65] = terror"
  by (simp add: pickTeam_def pickTeamHash_def Let_def toInt32_def js_rem_def TEAM_NAMES_def)


section \<open>Spawn validation\<close>

text \<open>
  \<open>isSpawnSafe\<close> rejects a spawn point exactly when the box around it overlaps an
  obstacle, and the scan of \<open>resolveSpawnPoint\<close> is \<^const>\<open>find\<close>. A cylinder that
  overlaps a box with ordered corners lies in a square that overlaps it.
\<close>

lemma isSpawnSafe_Cons:
  "isSpawnSafe (obstacle # rest) spawn =
     (\<not> boxOverlapsAabb (65 / 100) PLAYER_HEIGHT_STANDING spawn obstacle \<and> isSpawnSafe rest spawn)"
  by (auto simp: boxOverlapsAabb_def Let_def)

lemma isSpawnSafe_iff:
  "isSpawnSafe obstacles spawn =
     (\<forall>obstacle \<in> set obstacles. \<not> boxOverlapsAabb (65 / 100) PLAYER_HEIGHT_STANDING spawn obstacle)"
  by (induction obstacles) (simp_all only: isSpawnSafe.simps(1) isSpawnSafe_Cons list.set ball_simps simp_thms)

lemma firstSafeSpawn_find:
  "firstSafeSpawn obstacles spawnPoints = find (isSpawnSafe obstacles) spawnPoints"
  by (induction spawnPoints) simp_all

lemma square_less_imp: "a ^ 2 + b ^ 2 < r ^ 2 \<Longrightarrow> 0 \<le> r \<Longrightarrow> \<bar>a\<bar> < (r::real) \<and> \<bar>b\<bar> < r"
proof -
  assume h: "a ^ 2 + b ^ 2 < r ^ 2" and r: "0 \<le> r"
  have "a ^ 2 < r ^ 2" "b ^ 2 < r ^ 2"
    using h zero_le_power2 [of a] zero_le_power2 [of b] by linarith+
  then have "\<bar>a\<bar> ^ 2 < r ^ 2" "\<bar>b\<bar> ^ 2 < r ^ 2" by simp_all
  with r show ?thesis by (simp add: power2_less_imp_less)
qed

lemma clamp_between: "lo \<le> hi \<Longrightarrow> lo \<le> clamp v lo hi \<and> clamp v lo hi \<le> hi"
  by (simp add: clamp_def)

lemma cylinder_imp_box:
  assumes wf: "xc (min_corner ob) \<le> xc (max_corner ob)" "zc (min_corner ob) \<le> zc (max_corner ob)"
    and r: "0 \<le> radius"
    and c: "cylinderOverlapsAabb_spec radius height spawn ob"
  shows "boxOverlapsAabb radius height spawn ob"
proof -
  let ?nx = "clamp (xc spawn) (xc (min_corner ob)) (xc (max_corner ob))"
  let ?nz = "clamp (zc spawn) (zc (min_corner ob)) (zc (max_corner ob))"
  from c have v: "yc spawn < yc (max_corner ob)" "yc spawn + height > yc (min_corner ob)"
    and d: "(xc spawn - ?nx) ^ 2 + (zc spawn - ?nz) ^ 2 < radius ^ 2"
    by (simp_all add: cylinderOverlapsAabb_spec_def Let_def)
  from square_less_imp [OF d r] have a: "\<bar>xc spawn - ?nx\<bar> < radius" "\<bar>zc spawn - ?nz\<bar> < radius"
    by simp_all
  from clamp_between [OF wf(1), of "xc spawn"] clamp_between [OF wf(2), of "zc spawn"] a v
  show ?thesis unfolding boxOverlapsAabb_def by linarith
qed

text \<open>
  Claim C7, as the code has it. \<open>isSpawnSafe\<close> reports a spawn point unsafe exactly when
  the axis-aligned box around the player (the square of half-width 0.65 around the
  spawn point, from its \<open>y\<close> to \<open>y\<close> plus the standing height) overlaps some obstacle's
  box on all three axes; in particular it reports unsafe whenever the cylinder of
  radius 0.65 in that box overlaps an obstacle, the obstacles having ordered corners.
  \<open>resolveSpawnPoint\<close> returns the preferred point when it is safe, otherwise the first
  safe point of the spawn list, otherwise the preferred point.
\<close>

theorem spawn_safety_and_fallback:
  "(isSpawnSafe obstacles spawn \<longleftrightarrow>
      \<not> (\<exists>ob \<in> set obstacles. boxOverlapsAabb (65 / 100) PLAYER_HEIGHT_STANDING spawn ob))
   \<and> ((\<forall>ob \<in> set obstacles. xc (min_corner ob) \<le> xc (max_corner ob)
                              \<and> zc (min_corner ob) \<le> zc (max_corner ob))
        \<and> (\<exists>ob \<in> set obstacles.
              cylinderOverlapsAabb_spec (65 / 100) PLAYER_HEIGHT_STANDING spawn ob)
        \<longrightarrow> \<not> isSpawnSafe obstacles spawn)
   \<and> (isSpawnSafe obstacles preferred \<longrightarrow>
        resolveSpawnPoint obstacles spawnPoints preferred = preferred)
   \<and> (\<not> isSpawnSafe obstacles preferred \<longrightarrow>
        resolveSpawnPoint obstacles spawnPoints preferred =
          (case find (isSpawnSafe obstacles) spawnPoints of
             Some spawn \<Rightarrow> spawn | None \<Rightarrow> preferred))"
proof -
  have a: "isSpawnSafe obstacles spawn \<longleftrightarrow>
      \<not> (\<exists>ob \<in> set obstacles. boxOverlapsAabb (65 / 100) PLAYER_HEIGHT_STANDING spawn ob)"
    by (simp add: isSpawnSafe_iff)
  have b: "\<not> isSpawnSafe obstacles spawn"
    if wf: "\<forall>ob \<in> set obstacles. xc (min_corner ob) \<le> xc (max_corner ob)
                              \<and> zc (min_corner ob) \<le> zc (max_corner ob)"
      and c: "\<exists>ob \<in> set obstacles.
              cylinderOverlapsAabb_spec (65 / 100) PLAYER_HEIGHT_STANDING spawn ob"
  proof -
    from c obtain ob where ob: "ob \<in> set obstacles"
      "cylinderOverlapsAabb_spec (65 / 100) PLAYER_HEIGHT_STANDING spawn ob" by blast
    from wf ob(1) have "xc (min_corner ob) \<le> xc (max_corner ob)"
      "zc (min_corner ob) \<le> zc (max_corner ob)" by simp_all
    then have "boxOverlapsAabb (65 / 100) PLAYER_HEIGHT_STANDING spawn ob"
      by (rule cylinder_imp_box) (simp, rule ob(2))
    with ob(1) show ?thesis unfolding a by blast
  qed
  have c: "(isSpawnSafe obstacles preferred \<longrightarrow>
        resolveSpawnPoint obstacles spawnPoints preferred = preferred)
   \<and> (\<not> isSpawnSafe obstacles preferred \<longrightarrow>
        resolveSpawnPoint obstacles spawnPoints preferred =
          (case find (isSpawnSafe obstacles) spawnPoints of
             Some spawn \<Rightarrow> spawn | None \<Rightarrow> preferred))"
    by (simp add: resolveSpawnPoint_def firstSafeSpawn_find)
  from a b c show ?thesis by blast
qed

theorem spawn_safety_and_fallback_witness:
  "\<not> isSpawnSafe
       [\<lparr> min_corner = \<lparr> xc = 1 / 2, yc = 0, zc = 1 / 2 \<rparr>, max_corner = \<lparr> xc = 1, yc = 1, zc = 1 \<rparr> \<rparr>]
       \<lparr> xc = 1 / 5, yc = 0, zc = 1 / 5 \<rparr>
   \<and> cylinderOverlapsAabb_spec (65 / 100) PLAYER_HEIGHT_STANDING \<lparr> xc = 1 / 5, yc = 0, zc = 1 / 5 \<rparr>
       \<lparr> min_corner = \<lparr> xc = 1 / 2, yc = 0, zc = 1 / 2 \<rparr>, max_corner = \<lparr> xc = 1, yc = 1, zc = 1 \<rparr> \<rparr>
   \<and> isSpawnSafe
       [\<lparr> min_corner = \<lparr> xc = 1 / 2, yc = 0, zc = 1 / 2 \<rparr>, max_corner = \<lparr> xc = 1, yc = 1, zc = 1 \<rparr> \<rparr>]
       \<lparr> xc = - 1, yc = 0, zc = - 1 \<rparr>
   \<and> resolveSpawnPoint
       [\<lparr> min_corner = \<lparr> xc = 1 / 2, yc = 0, zc = 1 / 2 \<rparr>, max_corner = \<lparr> xc = 1, yc = 1, zc = 1 \<rparr> \<rparr>]
       [\<lparr> xc = 3 / 4, yc = 0, zc = 3 / 4 \<rparr>, \<lparr> xc = - 1, yc = 0, zc = - 1 \<rparr>, \<lparr> xc = 5, yc = 0, zc = 5 \<rparr>]
       \<lparr> xc = 1 / 5, yc = 0, zc = 1 / 5 \<rparr>
     = \<lparr> xc = - 1, yc = 0, zc = - 1 \<rparr>
   \<and> resolveSpawnPoint
       [\<lparr> min_corner = \<lparr> xc = 1 / 2, yc = 0, zc = 1 / 2 \<rparr>, max_corner = \<lparr> xc = 1, yc = 1, zc = 1 \<rparr> \<rparr>]
       [\<lparr> xc = 3 / 4, yc = 0, zc = 3 / 4 \<rparr>]
       \<lparr> xc = 1 / 5, yc = 0, zc = 1 / 5 \<rparr>
     = \<lparr> xc = 1 / 5, yc = 0, zc = 1 / 5 \<rparr>
   \<and> resolveSpawnPoint
       [\<lparr> min_corner = \<lparr> xc = 1 / 2, yc = 0, zc = 1 / 2 \<rparr>, max_corner = \<lparr> xc = 1, yc = 1, zc = 1 \<rparr> \<rparr>]
       [\<lparr> xc = 3 / 4, yc = 0, zc = 3 / 4 \<rparr>]
       \<lparr> xc = - 1, yc = 0, zc = - 1 \<rparr>
     = \<lparr> xc = - 1, yc = 0, zc = - 1 \<rparr>"
  using spawn_safety_and_fallback
      [of "[\<lparr> min_corner = \<lparr> xc = 1 / 2, yc = 0, zc = 1 / 2 \<rparr>, max_corner = \<lparr> xc = 1, yc = 1, zc = 1 \<rparr> \<rparr>]"
          "\<lparr> xc = 1 / 5, yc = 0, zc = 1 / 5 \<rparr>" "\<lparr> xc = 1 / 5, yc = 0, zc = 1 / 5 \<rparr>"
          "[\<lparr> xc = 3 / 4, yc = 0, zc = 3 / 4 \<rparr>, \<lparr> xc = - 1, yc = 0, zc = - 1 \<rparr>, \<lparr> xc = 5, yc = 0, zc = 5 \<rparr>]"]
    spawn_safety_and_fallback
      [of "[\<lparr> min_corner = \<lparr> xc = 1 / 2, yc = 0, zc = 1 / 2 \<rparr>, max_corner = \<lparr> xc = 1, yc = 1, zc = 1 \<rparr> \<rparr>]"
          "\<lparr> xc = - 1, yc = 0, zc = - 1 \<rparr>" "\<lparr> xc = 1 / 5, yc = 0, zc = 1 / 5 \<rparr>"
          "[\<lparr> xc = 3 / 4, yc = 0, zc = 3 / 4 \<rparr>]"]
    spawn_safety_and_fallback
      [of "[\<lparr> min_corner = \<lparr> xc = 1 / 2, yc = 0, zc = 1 / 2 \<rparr>, max_corner = \<lparr> xc = 1, yc = 1, zc = 1 \<rparr> \<rparr>]"
          "\<lparr> xc = - 1, yc = 0, zc = - 1 \<rparr>" "\<lparr> xc = - 1, yc = 0, zc = - 1 \<rparr>"
          "[\<lparr> xc = 3 / 4, yc = 0, zc = 3 / 4 \<rparr>]"]
  by (simp add: boxOverlapsAabb_def cylinderOverlapsAabb_spec_def clamp_def
        PLAYER_HEIGHT_STANDING_def Let_def power2_eq_square)

text \<open>
  The test is not the overlap of a cylinder: a box whose nearest corner is at distance
  \<open>0.707\<close> from the axis, beyond the radius, but within 0.65 of it on each of the
  two horizontal axes, makes the spawn point unsafe.
\<close>

theorem isSpawnSafe_cylinder_counterexample:
  "\<not> (\<not> isSpawnSafe
          [\<lparr> min_corner = \<lparr> xc = 1 / 2, yc = 0, zc = 1 / 2 \<rparr>,
             max_corner = \<lparr> xc = 1, yc = 1, zc = 1 \<rparr> \<rparr>]
          \<lparr> xc = 0, yc = 0, zc = 0 \<rparr>
       \<longleftrightarrow> cylinderOverlapsAabb_spec (65 / 100) PLAYER_HEIGHT_STANDING
          \<lparr> xc = 0, yc = 0, zc = 0 \<rparr>
          \<lparr> min_corner = \<lparr> xc = 1 / 2, yc = 0, zc = 1 / 2 \<rparr>,
            max_corner = \<lparr> xc = 1, yc = 1, zc = 1 \<rparr> \<rparr>)"
  by (simp add: cylinderOverlapsAabb_spec_def clamp_def
        PLAYER_HEIGHT_STANDING_def Let_def power2_eq_square)

end
